theory Spec2Isabelle
  imports Main "HOL-Library.AList" "HOL-Library.Multiset" "HOL-Library.Sublist"
    "HOL-Library.List_Lexorder" "HOL-Library.Char_ord"
begin

section \<open>Python values\<close>

text \<open>
  The module \<^verbatim>\<open>great_expectations/core/batch.py\<close> is dynamically typed: every argument
  may hold any value, and the code tests values with \<^verbatim>\<open>is None\<close>, truthiness and
  \<^verbatim>\<open>isinstance\<close>.  A value is \<^verbatim>\<open>None\<close>, a bool, an int, a str, a function
  (which has a \<^verbatim>\<open>__name__\<close>), some other object (of a named type, with an identity,
  truthy, and neither a container nor a mapping), or a dict.  A dict records its class
  (\<^verbatim>\<open>dict\<close>, \<^verbatim>\<open>IDDict\<close>, or a subclass of \<^verbatim>\<open>IDDict\<close> such as
  \<^verbatim>\<open>BatchKwargs\<close>) and its entries in insertion order; keys are strings.
\<close>

type_synonym addr = nat

datatype dict_class = Dict | IDDict | IDDictSubclass string

datatype pyval =
    PNone
  | PBool bool
  | PInt int
  | PStr string
  | PFunc string
  | PObj string addr
  | PDict dict_class "(string \<times> pyval) list"

type_synonym entries = "(string \<times> pyval) list"

text \<open>Truthiness, as \<^verbatim>\<open>if x:\<close> and \<^verbatim>\<open>x and y\<close> test it.\<close>

fun truthy :: "pyval \<Rightarrow> bool" where
  "truthy PNone = False"
| "truthy (PBool b) = b"
| "truthy (PInt i) = (i \<noteq> 0)"
| "truthy (PStr s) = (s \<noteq> [])"
| "truthy (PFunc n) = True"
| "truthy (PObj t a) = True"
| "truthy (PDict c kvs) = (kvs \<noteq> [])"

fun isinstance_str :: "pyval \<Rightarrow> bool" where
  "isinstance_str (PStr s) = True"
| "isinstance_str v = False"

text \<open>\<^verbatim>\<open>bool\<close> is a subclass of \<^verbatim>\<open>int\<close>.\<close>

fun isinstance_int :: "pyval \<Rightarrow> bool" where
  "isinstance_int (PInt i) = True"
| "isinstance_int (PBool b) = True"
| "isinstance_int v = False"

fun isinstance_dict :: "pyval \<Rightarrow> bool" where
  "isinstance_dict (PDict c kvs) = True"
| "isinstance_dict v = False"

fun isinstance_IDDict :: "pyval \<Rightarrow> bool" where
  "isinstance_IDDict (PDict c kvs) = (c \<noteq> Dict)"
| "isinstance_IDDict v = False"

text \<open>\<^verbatim>\<open>type(x) == IDDict\<close>: the class itself, no subclass.\<close>

fun type_is_IDDict :: "pyval \<Rightarrow> bool" where
  "type_is_IDDict (PDict c kvs) = (c = IDDict)"
| "type_is_IDDict v = False"

fun type_name :: "pyval \<Rightarrow> string" where
  "type_name PNone = ''NoneType''"
| "type_name (PBool b) = ''bool''"
| "type_name (PInt i) = ''int''"
| "type_name (PStr s) = ''str''"
| "type_name (PFunc n) = ''function''"
| "type_name (PObj t a) = t"
| "type_name (PDict Dict kvs) = ''dict''"
| "type_name (PDict IDDict kvs) = ''great_expectations.core.id_dict.IDDict''"
| "type_name (PDict (IDDictSubclass n) kvs) = n"

text \<open>\<^verbatim>\<open>str(type(x))\<close>.\<close>

definition str_type :: "pyval \<Rightarrow> string" where
  "str_type v = ''<class '' @ [CHR 0x27] @ type_name v @ [CHR 0x27] @ ''>''"

subsection \<open>Dict operations\<close>

text \<open>
  \<^verbatim>\<open>d.get(k)\<close> is \<^const>\<open>map_of\<close>; \<^verbatim>\<open>d[k] = v\<close> is \<^const>\<open>AList.update\<close> (an
  existing key keeps its position, a new key goes last); \<^verbatim>\<open>del d[k]\<close> is
  \<^const>\<open>AList.delete\<close>; \<^verbatim>\<open>d.update(e)\<close> stores the entries of \<^verbatim>\<open>e\<close> in order.
\<close>

definition dict_get :: "entries \<Rightarrow> string \<Rightarrow> pyval" where
  "dict_get kvs k = (case map_of kvs k of None \<Rightarrow> PNone | Some v \<Rightarrow> v)"

definition dict_update :: "entries \<Rightarrow> entries \<Rightarrow> entries" where
  "dict_update d e = fold (\<lambda>(k, v). AList.update k v) e d"

subsection \<open>Exceptions\<close>

datatype error =
    TypeError string
  | ValueError string
  | GreatExpectationsTypeError string
  | AttributeError string
  | AssertionError

text \<open>
  The messages of the type errors are f-strings that name the field and end in
  \<^verbatim>\<open>str(type(value))\<close>; line breaks and the double quotes around the type are left
  out here.
\<close>

definition illegal_type :: "string \<Rightarrow> pyval \<Rightarrow> string" where
  "illegal_type what v = what @ ''  The type given is '' @ str_type v @ '', which is illegal.''"

section \<open>Collaborators that are not part of the module\<close>

text \<open>
  Modelled from the spec: \<^verbatim>\<open>convert_to_json_serializable\<close> of
  \<^verbatim>\<open>great_expectations.core.util\<close>, "a JSON-serialization helper that recursively
  converts arbitrary values to JSON-safe primitives".  A mapping of any class becomes a
  plain mapping of the converted entries, in the same order; None, booleans, integers
  and strings are JSON already.  The spec does not say what becomes of a function or of
  another object: they are left as they are.
\<close>

fun convert_to_json_serializable :: "pyval \<Rightarrow> pyval" where
  "convert_to_json_serializable (PDict c kvs) =
     PDict Dict (map (\<lambda>(k, v). (k, convert_to_json_serializable v)) kvs)"
| "convert_to_json_serializable v = v"

text \<open>
  Modelled from the spec: \<^verbatim>\<open>IDDict.to_id\<close> of \<^verbatim>\<open>great_expectations.core.id_dict\<close>,
  "a deterministic, order-independent content hash (id) for any JSON-serializable
  structure".  The content is brought into a canonical form, every mapping sorted by
  key, and hashed; the hash function itself is a parameter \<open>H\<close>.
\<close>

fun canonical :: "pyval \<Rightarrow> pyval" where
  "canonical (PDict c kvs) = PDict c (sort_key fst (map (\<lambda>(k, v). (k, canonical v)) kvs))"
| "canonical v = v"

definition to_id :: "(pyval \<Rightarrow> string) \<Rightarrow> pyval \<Rightarrow> string" where
  "to_id H d = H (canonical d)"

text \<open>
  Modelled from the spec: \<^verbatim>\<open>filter_properties_dict\<close> of \<^verbatim>\<open>great_expectations.util\<close>
  called with \<^verbatim>\<open>clean_falsy=True, inplace=True\<close>, "a property filter helper that strips
  falsy entries from a mapping, optionally in place": the entries whose value is falsy
  (empty mapping, empty string, null) are removed, the others keep their order.
\<close>

definition filter_properties_dict :: "entries \<Rightarrow> entries" where
  "filter_properties_dict properties = filter (\<lambda>(k, v). truthy v) properties"

section \<open>BatchDefinition\<close>

record batch_definition =
  bd_datasource_name :: pyval
  bd_data_connector_name :: pyval
  bd_data_asset_name :: pyval
  bd_batch_identifiers :: pyval
  bd_batch_spec_passthrough :: pyval

text \<open>\<^verbatim>\<open>BatchDefinition._validate_batch_definition\<close>: the exception raised, if any.\<close>

definition BatchDefinition_validate_batch_definition ::
  "pyval \<Rightarrow> pyval \<Rightarrow> pyval \<Rightarrow> pyval \<Rightarrow> error option" where
  "BatchDefinition_validate_batch_definition datasource_name data_connector_name
       data_asset_name batch_identifiers =
    (if datasource_name = PNone then
       Some (ValueError ''A valid datasource must be specified.'')
     else if truthy datasource_name \<and> \<not> isinstance_str datasource_name then
       Some (TypeError (illegal_type
         ''The type of an datasource name must be a string (Python str).'' datasource_name))
     else if data_connector_name = PNone then
       Some (ValueError ''A valid data_connector must be specified.'')
     else if truthy data_connector_name \<and> \<not> isinstance_str data_connector_name then
       Some (TypeError (illegal_type
         ''The type of a data_connector name must be a string (Python str).''
         data_connector_name))
     else if data_asset_name = PNone then
       Some (ValueError ''A valid data_asset_name must be specified.'')
     else if truthy data_asset_name \<and> \<not> isinstance_str data_asset_name then
       Some (TypeError (illegal_type
         ''The type of a data_asset name must be a string (Python str).'' data_asset_name))
     else if truthy batch_identifiers \<and> \<not> isinstance_IDDict batch_identifiers then
       Some (TypeError (illegal_type
         ''The type of batch_identifiers must be an IDDict object.'' batch_identifiers))
     else None)"

text \<open>\<^verbatim>\<open>BatchDefinition.__init__\<close>: validation, the assertion, then the five fields.\<close>

definition BatchDefinition_init ::
  "pyval \<Rightarrow> pyval \<Rightarrow> pyval \<Rightarrow> pyval \<Rightarrow> pyval \<Rightarrow> error + batch_definition" where
  "BatchDefinition_init datasource_name data_connector_name data_asset_name
       batch_identifiers batch_spec_passthrough =
    (case BatchDefinition_validate_batch_definition datasource_name data_connector_name
            data_asset_name batch_identifiers of
       Some e \<Rightarrow> Inl e
     | None \<Rightarrow>
         if \<not> type_is_IDDict batch_identifiers then Inl AssertionError
         else Inr \<lparr> bd_datasource_name = datasource_name,
                    bd_data_connector_name = data_connector_name,
                    bd_data_asset_name = data_asset_name,
                    bd_batch_identifiers = batch_identifiers,
                    bd_batch_spec_passthrough = batch_spec_passthrough \<rparr>)"

definition BatchDefinition_to_json_dict :: "batch_definition \<Rightarrow> pyval" where
  "BatchDefinition_to_json_dict self =
     convert_to_json_serializable (PDict Dict
       [(''datasource_name'', bd_datasource_name self),
        (''data_connector_name'', bd_data_connector_name self),
        (''data_asset_name'', bd_data_asset_name self),
        (''batch_identifiers'', bd_batch_identifiers self)])"

text \<open>\<^verbatim>\<open>IDDict(self.to_json_dict()).to_id()\<close>.\<close>

definition IDDict_of :: "pyval \<Rightarrow> pyval" where
  "IDDict_of d = (case d of PDict c kvs \<Rightarrow> PDict IDDict kvs | v \<Rightarrow> v)"

definition BatchDefinition_id :: "(pyval \<Rightarrow> string) \<Rightarrow> batch_definition \<Rightarrow> string" where
  "BatchDefinition_id H self = to_id H (IDDict_of (BatchDefinition_to_json_dict self))"

text \<open>\<^verbatim>\<open>BatchDefinition.__eq__\<close>, for two instances of the class.\<close>

definition BatchDefinition_eq ::
  "(pyval \<Rightarrow> string) \<Rightarrow> batch_definition \<Rightarrow> batch_definition \<Rightarrow> bool" where
  "BatchDefinition_eq H self other = (BatchDefinition_id H self = BatchDefinition_id H other)"

section \<open>BatchRequestBase, BatchRequest, RuntimeBatchRequest\<close>

text \<open>
  The three classes share the eight attributes that \<^verbatim>\<open>BatchRequestBase.__init__\<close>
  sets; an instance records which class it was made from.
\<close>

datatype request_class = BatchRequestBase | BatchRequest | RuntimeBatchRequest

record request =
  br_class :: request_class
  br_datasource_name :: pyval
  br_data_connector_name :: pyval
  br_data_asset_name :: pyval
  br_data_connector_query :: pyval
  br_limit :: pyval
  br_runtime_parameters :: pyval
  br_batch_identifiers :: pyval
  br_batch_spec_passthrough :: pyval

text \<open>\<^verbatim>\<open>isinstance(x, BatchRequest)\<close>: the class or its subclass.\<close>

definition isinstance_BatchRequest :: "request \<Rightarrow> bool" where
  "isinstance_BatchRequest r = (br_class r \<noteq> BatchRequestBase)"

text \<open>\<^verbatim>\<open>BatchRequestBase.__init__\<close> validates nothing.\<close>

definition BatchRequestBase_init ::
  "request_class \<Rightarrow> pyval \<Rightarrow> pyval \<Rightarrow> pyval \<Rightarrow> pyval \<Rightarrow> pyval \<Rightarrow> pyval \<Rightarrow> pyval \<Rightarrow> pyval
     \<Rightarrow> request" where
  "BatchRequestBase_init cls datasource_name data_connector_name data_asset_name
       data_connector_query limit runtime_parameters batch_identifiers
       batch_spec_passthrough =
     \<lparr> br_class = cls,
       br_datasource_name = datasource_name,
       br_data_connector_name = data_connector_name,
       br_data_asset_name = data_asset_name,
       br_data_connector_query = data_connector_query,
       br_limit = limit,
       br_runtime_parameters = runtime_parameters,
       br_batch_identifiers = batch_identifiers,
       br_batch_spec_passthrough = batch_spec_passthrough \<rparr>"

text \<open>\<^verbatim>\<open>BatchRequest._validate_init_parameters\<close>: the exception raised, if any.\<close>

definition BatchRequest_validate_init_parameters ::
  "pyval \<Rightarrow> pyval \<Rightarrow> pyval \<Rightarrow> pyval \<Rightarrow> pyval \<Rightarrow> error option" where
  "BatchRequest_validate_init_parameters datasource_name data_connector_name
       data_asset_name data_connector_query limit =
    (if \<not> (truthy datasource_name \<and> isinstance_str datasource_name) then
       Some (TypeError (illegal_type
         ''The type of an datasource name must be a string (Python str).'' datasource_name))
     else if \<not> (truthy data_connector_name \<and> isinstance_str data_connector_name) then
       Some (TypeError (illegal_type
         ''The type of data_connector name must be a string (Python str).''
         data_connector_name))
     else if \<not> (truthy data_asset_name \<and> isinstance_str data_asset_name) then
       Some (TypeError (illegal_type
         ''The type of data_asset name must be a string (Python str).'' data_asset_name))
     else if truthy data_connector_query \<and> \<not> isinstance_dict data_connector_query then
       Some (TypeError (illegal_type
         ''The type of data_connector_query must be a dict object.'' data_connector_query))
     else if truthy limit \<and> \<not> isinstance_int limit then
       Some (TypeError (illegal_type
         ''The type of limit must be an integer (Python int).'' limit))
     else None)"

text \<open>
  \<^verbatim>\<open>BatchRequest.__init__\<close>, run on a new instance of class \<open>cls\<close> (the class itself,
  or \<^verbatim>\<open>RuntimeBatchRequest\<close> through \<^verbatim>\<open>super().__init__\<close>).
\<close>

definition BatchRequest_init ::
  "request_class \<Rightarrow> pyval \<Rightarrow> pyval \<Rightarrow> pyval \<Rightarrow> pyval \<Rightarrow> pyval \<Rightarrow> pyval \<Rightarrow> error + request" where
  "BatchRequest_init cls datasource_name data_connector_name data_asset_name
       data_connector_query limit batch_spec_passthrough =
    (case BatchRequest_validate_init_parameters datasource_name data_connector_name
            data_asset_name data_connector_query limit of
       Some e \<Rightarrow> Inl e
     | None \<Rightarrow> Inr (BatchRequestBase_init cls datasource_name data_connector_name
                      data_asset_name data_connector_query limit PNone PNone
                      batch_spec_passthrough))"

text \<open>\<^verbatim>\<open>BatchRequest._validate_runtime_batch_request_specific_init_parameters\<close>.\<close>

definition BatchRequest_validate_runtime_batch_request_specific_init_parameters ::
  "pyval \<Rightarrow> pyval \<Rightarrow> pyval \<Rightarrow> error option" where
  "BatchRequest_validate_runtime_batch_request_specific_init_parameters
       runtime_parameters batch_identifiers batch_spec_passthrough =
    (if \<not> (truthy runtime_parameters \<and> isinstance_dict runtime_parameters) then
       Some (TypeError (illegal_type
         ''The type for runtime_parameters must be a dict object.'' runtime_parameters))
     else if \<not> (truthy batch_identifiers \<and> isinstance_dict batch_identifiers) then
       Some (TypeError (illegal_type
         (''The type for batch_identifiers must be a dict object, with keys being '' @
          ''identifiers defined in the data connector configuration.'') batch_identifiers))
     else if truthy batch_spec_passthrough \<and> \<not> isinstance_dict batch_spec_passthrough then
       Some (TypeError (illegal_type
         ''The type for batch_spec_passthrough must be a dict object.''
         batch_spec_passthrough))
     else None)"

text \<open>
  \<^verbatim>\<open>RuntimeBatchRequest.__init__\<close>: the parent's initialiser with no
  \<^verbatim>\<open>data_connector_query\<close> and no \<^verbatim>\<open>limit\<close>, the runtime validation, then the
  two runtime attributes.
\<close>

definition RuntimeBatchRequest_init ::
  "pyval \<Rightarrow> pyval \<Rightarrow> pyval \<Rightarrow> pyval \<Rightarrow> pyval \<Rightarrow> pyval \<Rightarrow> error + request" where
  "RuntimeBatchRequest_init datasource_name data_connector_name data_asset_name
       runtime_parameters batch_identifiers batch_spec_passthrough =
    (case BatchRequest_init RuntimeBatchRequest datasource_name data_connector_name
            data_asset_name PNone PNone batch_spec_passthrough of
       Inl e \<Rightarrow> Inl e
     | Inr self \<Rightarrow>
        (case BatchRequest_validate_runtime_batch_request_specific_init_parameters
                runtime_parameters batch_identifiers batch_spec_passthrough of
           Some e \<Rightarrow> Inl e
         | None \<Rightarrow> Inr (self\<lparr> br_runtime_parameters := runtime_parameters,
                               br_batch_identifiers := batch_identifiers \<rparr>)))"

subsection \<open>The JSON form of a request\<close>

text \<open>
  The first block of \<^verbatim>\<open>BatchRequestBase.to_json_dict\<close>: a deep copy of the query in
  which a \<^verbatim>\<open>custom_filter_function\<close> is replaced by its \<^verbatim>\<open>__name__\<close>.  The copy of a
  value is the value.  \<^verbatim>\<open>.get\<close> exists on mappings only and \<^verbatim>\<open>__name__\<close> here on
  functions only; elsewhere Python raises \<^verbatim>\<open>AttributeError\<close>.
\<close>

definition json_data_connector_query :: "pyval \<Rightarrow> error + pyval" where
  "json_data_connector_query q =
    (if q \<noteq> PNone then
       (case q of
          PDict c kvs \<Rightarrow>
            if dict_get kvs ''custom_filter_function'' \<noteq> PNone then
              (case dict_get kvs ''custom_filter_function'' of
                 PFunc n \<Rightarrow> Inr (PDict c (AList.update ''custom_filter_function'' (PStr n) kvs))
               | v \<Rightarrow> Inl (AttributeError (type_name v @ '' object has no attribute __name__'')))
            else Inr (PDict c kvs)
        | v \<Rightarrow> Inl (AttributeError (type_name v @ '' object has no attribute get'')))
     else Inr PNone)"

text \<open>
  The block for \<^verbatim>\<open>runtime_parameters\<close>: the entries other than \<^verbatim>\<open>batch_data\<close>, then
  \<^verbatim>\<open>batch_data\<close> as the string of its type when it is not None.
\<close>

definition json_runtime_parameters :: "pyval \<Rightarrow> error + pyval" where
  "json_runtime_parameters p =
    (case p of
       PDict c kvs \<Rightarrow>
         (let d = filter (\<lambda>(key, value). key \<noteq> ''batch_data'') kvs in
          if dict_get kvs ''batch_data'' \<noteq> PNone then
            Inr (PDict Dict
              (AList.update ''batch_data'' (PStr (str_type (dict_get kvs ''batch_data''))) d))
          else Inr (PDict Dict d))
     | v \<Rightarrow> Inl (AttributeError (type_name v @ '' object has no attribute items'')))"

text \<open>\<^verbatim>\<open>if v is not None: json_dict[k] = v\<close>.\<close>

definition set_if_not_None :: "string \<Rightarrow> pyval \<Rightarrow> entries \<Rightarrow> entries" where
  "set_if_not_None k v json_dict = (if v \<noteq> PNone then AList.update k v json_dict else json_dict)"

text \<open>What such a statement adds to a dict that has no key \<open>k\<close> yet.\<close>

definition optional_entry :: "string \<Rightarrow> pyval \<Rightarrow> entries" where
  "optional_entry k v = (if v \<noteq> PNone then [(k, v)] else [])"

definition BatchRequestBase_to_json_dict :: "request \<Rightarrow> error + entries" where
  "BatchRequestBase_to_json_dict self =
    (case json_data_connector_query (br_data_connector_query self) of
       Inl e \<Rightarrow> Inl e
     | Inr data_connector_query \<Rightarrow>
        (let json_dict =
               [(''datasource_name'', br_datasource_name self),
                (''data_connector_name'', br_data_connector_name self),
                (''data_asset_name'', br_data_asset_name self),
                (''data_connector_query'', data_connector_query)];
             json_dict = set_if_not_None ''batch_spec_passthrough''
                           (br_batch_spec_passthrough self) json_dict;
             json_dict = set_if_not_None ''limit'' (br_limit self) json_dict;
             json_dict = set_if_not_None ''batch_identifiers''
                           (br_batch_identifiers self) json_dict
         in if br_runtime_parameters self \<noteq> PNone then
              (case json_runtime_parameters (br_runtime_parameters self) of
                 Inl e \<Rightarrow> Inl e
               | Inr p \<Rightarrow>
                   Inr (filter_properties_dict
                          (AList.update ''runtime_parameters'' p json_dict)))
            else Inr (filter_properties_dict json_dict)))"

text \<open>\<^verbatim>\<open>BatchRequestBase.id\<close>: \<^verbatim>\<open>IDDict(self.to_json_dict()).to_id()\<close>.\<close>

definition BatchRequestBase_id :: "(pyval \<Rightarrow> string) \<Rightarrow> request \<Rightarrow> error + string" where
  "BatchRequestBase_id H self =
    (case BatchRequestBase_to_json_dict self of
       Inl e \<Rightarrow> Inl e
     | Inr json_dict \<Rightarrow> Inr (to_id H (PDict IDDict json_dict)))"

section \<open>get_batch_request_from_acceptable_arguments\<close>

text \<open>
  The argument \<^verbatim>\<open>batch_request\<close> may hold a request object or any other value.
  An instance of the request classes defines neither \<^verbatim>\<open>__bool__\<close> nor
  \<^verbatim>\<open>__len__\<close> in this module, so it is truthy.
\<close>

datatype request_arg = NotARequest pyval | ARequest request

fun truthy_arg :: "request_arg \<Rightarrow> bool" where
  "truthy_arg (NotARequest v) = truthy v"
| "truthy_arg (ARequest r) = True"

fun type_name_arg :: "request_arg \<Rightarrow> string" where
  "type_name_arg (NotARequest v) = type_name v"
| "type_name_arg (ARequest r) = ''great_expectations.core.batch.BatchRequestBase''"

text \<open>The parameters of the function; \<open>arg_kwargs\<close> is the catch-all \<^verbatim>\<open>**kwargs\<close>.\<close>

record arguments =
  arg_datasource_name :: pyval
  arg_data_connector_name :: pyval
  arg_data_asset_name :: pyval
  arg_batch_request :: request_arg
  arg_batch_data :: pyval
  arg_data_connector_query :: pyval
  arg_batch_identifiers :: pyval
  arg_limit :: pyval
  arg_index :: pyval
  arg_custom_filter_function :: pyval
  arg_batch_spec_passthrough :: pyval
  arg_sampling_method :: pyval
  arg_sampling_kwargs :: pyval
  arg_splitter_method :: pyval
  arg_splitter_kwargs :: pyval
  arg_runtime_parameters :: pyval
  arg_query :: pyval
  arg_path :: pyval
  arg_batch_filter_parameters :: pyval
  arg_kwargs :: entries

text \<open>The call with no argument: every parameter has the default \<^verbatim>\<open>None\<close>.\<close>

definition no_arguments :: arguments where
  "no_arguments =
     \<lparr> arg_datasource_name = PNone, arg_data_connector_name = PNone,
       arg_data_asset_name = PNone, arg_batch_request = NotARequest PNone,
       arg_batch_data = PNone, arg_data_connector_query = PNone,
       arg_batch_identifiers = PNone, arg_limit = PNone, arg_index = PNone,
       arg_custom_filter_function = PNone, arg_batch_spec_passthrough = PNone,
       arg_sampling_method = PNone, arg_sampling_kwargs = PNone,
       arg_splitter_method = PNone, arg_splitter_kwargs = PNone,
       arg_runtime_parameters = PNone, arg_query = PNone, arg_path = PNone,
       arg_batch_filter_parameters = PNone, arg_kwargs = [] \<rparr>"

text \<open>
  What the caller can observe beside the result: the state, after the call, of the
  object passed as \<^verbatim>\<open>runtime_parameters\<close> (the only argument the function stores
  into), and the warnings logged.  Both are there whether the call returns or raises.
\<close>

record effects =
  caller_runtime_parameters :: pyval
  warnings :: "string list"

type_synonym outcome = "(error + request) \<times> effects"

definition no_effects :: "arguments \<Rightarrow> effects" where
  "no_effects a = \<lparr> caller_runtime_parameters = arg_runtime_parameters a, warnings = [] \<rparr>"

text \<open>
  \<^verbatim>\<open>key in x\<close>: membership among the keys of a mapping, a substring test on a str;
  a value that is not a container raises.  \<^verbatim>\<open>x[key] = v\<close> needs a mapping.
  \<^verbatim>\<open>IDDict(x)\<close> is the \<^verbatim>\<open>dict\<close> constructor: the entries of a mapping, nothing for
  the empty string, an exception for what is not a sequence of pairs.
\<close>

fun py_in :: "string \<Rightarrow> pyval \<Rightarrow> error + bool" where
  "py_in k (PDict c kvs) = Inr (k \<in> set (map fst kvs))"
| "py_in k (PStr s) = Inr (sublist k s)"
| "py_in k v = Inl (TypeError (''argument of type '' @ type_name v @ '' is not iterable''))"

fun py_setitem :: "pyval \<Rightarrow> string \<Rightarrow> pyval \<Rightarrow> error + pyval" where
  "py_setitem (PDict c kvs) k v = Inr (PDict c (AList.update k v kvs))"
| "py_setitem d k v =
     Inl (TypeError (type_name d @ '' object does not support item assignment''))"

fun IDDict_new :: "pyval \<Rightarrow> error + pyval" where
  "IDDict_new (PDict c kvs) = Inr (PDict IDDict kvs)"
| "IDDict_new (PStr s) =
     (if s = [] then Inr (PDict IDDict [])
      else Inl (ValueError
        ''dictionary update sequence element #0 has length 1; 2 is required''))"
| "IDDict_new v = Inl (TypeError (type_name v @ '' object is not iterable''))"

text \<open>
  Lines 677 to 682: a truthy \<^verbatim>\<open>batch_request\<close> must be a \<^verbatim>\<open>BatchRequest\<close> and
  then gives the datasource name.
\<close>

definition resolve_datasource_name :: "arguments \<Rightarrow> error + pyval" where
  "resolve_datasource_name a =
    (if truthy_arg (arg_batch_request a) then
       (case arg_batch_request a of
          ARequest r \<Rightarrow>
            if \<not> isinstance_BatchRequest r then
              Inl (TypeError (''batch_request must be an instance of BatchRequest object, not ''
                     @ type_name_arg (arg_batch_request a)))
            else Inr (br_datasource_name r)
        | NotARequest v \<Rightarrow>
            Inl (TypeError (''batch_request must be an instance of BatchRequest object, not ''
                   @ type_name_arg (arg_batch_request a))))
     else Inr (arg_datasource_name a))"

text \<open>Line 691: how many of \<^verbatim>\<open>batch_data\<close>, \<^verbatim>\<open>query\<close>, \<^verbatim>\<open>path\<close> are not None.\<close>

definition provided_count :: "arguments \<Rightarrow> nat" where
  "provided_count a =
     length (filter (\<lambda>arg. arg \<noteq> PNone) [arg_batch_data a, arg_query a, arg_path a])"

text \<open>
  Lines 694 to 701, one element of the list given to \<^verbatim>\<open>any\<close>:
  \<^verbatim>\<open>given and runtime_parameters and key in runtime_parameters\<close>, as a truth value.
\<close>

definition given_and_in :: "bool \<Rightarrow> pyval \<Rightarrow> string \<Rightarrow> error + bool" where
  "given_and_in given runtime_parameters key =
    (if \<not> given then Inr False
     else if \<not> truthy runtime_parameters then Inr False
     else py_in key runtime_parameters)"

definition key_collision :: "arguments \<Rightarrow> error + bool" where
  "key_collision a =
    (case given_and_in (arg_batch_data a \<noteq> PNone) (arg_runtime_parameters a) ''batch_data'' of
       Inl e \<Rightarrow> Inl e
     | Inr c1 \<Rightarrow>
        (case given_and_in (truthy (arg_query a)) (arg_runtime_parameters a) ''query'' of
           Inl e \<Rightarrow> Inl e
         | Inr c2 \<Rightarrow>
            (case given_and_in (truthy (arg_path a)) (arg_runtime_parameters a) ''path'' of
               Inl e \<Rightarrow> Inl e
             | Inr c3 \<Rightarrow> Inr (c1 \<or> c2 \<or> c3))))"

text \<open>Line 712: the test that selects the runtime branch.\<close>

definition runtime_trigger :: "arguments \<Rightarrow> bool" where
  "runtime_trigger a =
     (arg_batch_data a \<noteq> PNone \<or> truthy (arg_query a) \<or> truthy (arg_path a)
      \<or> truthy (arg_runtime_parameters a))"

text \<open>
  Lines 713 to 734.  \<^verbatim>\<open>runtime_parameters or {}\<close> is the caller's object when that is
  truthy, so the assignment that follows stores into the caller's object; otherwise it
  is a new dict.
\<close>

definition runtime_branch :: "arguments \<Rightarrow> pyval \<Rightarrow> outcome" where
  "runtime_branch a datasource_name =
    (let caller = arg_runtime_parameters a;
         runtime_parameters = (if truthy caller then caller else PDict Dict []);
         stored =
           (if arg_batch_data a \<noteq> PNone then
              py_setitem runtime_parameters ''batch_data'' (arg_batch_data a)
            else if arg_query a \<noteq> PNone then
              py_setitem runtime_parameters ''query'' (arg_query a)
            else if arg_path a \<noteq> PNone then
              py_setitem runtime_parameters ''path'' (arg_path a)
            else Inr runtime_parameters)
     in case stored of
          Inl e \<Rightarrow> (Inl e, no_effects a)
        | Inr runtime_parameters \<Rightarrow>
           (let batch_identifiers =
                  (if arg_batch_identifiers a = PNone then PDict Dict (arg_kwargs a)
                   else arg_batch_identifiers a)
            in (RuntimeBatchRequest_init datasource_name (arg_data_connector_name a)
                  (arg_data_asset_name a) runtime_parameters batch_identifiers
                  (arg_batch_spec_passthrough a),
                \<lparr> caller_runtime_parameters =
                    (if truthy caller then runtime_parameters else caller),
                  warnings = [] \<rparr>)))"

definition batch_identifiers_deprecation :: string where
  "batch_identifiers_deprecation =
     ''Attempting to build data_connector_query but batch_identifiers was provided '' @
     ''instead of batch_filter_parameters. The batch_identifiers key on '' @
     ''data_connector_query has been renamed to batch_filter_parameters. Please update '' @
     ''your code. Falling back on provided batch_identifiers.''"

text \<open>Lines 766 to 781: the passthrough made of the sampling and splitter arguments.\<close>

definition resolve_batch_spec_passthrough :: "arguments \<Rightarrow> pyval" where
  "resolve_batch_spec_passthrough a =
    (if arg_batch_spec_passthrough a = PNone then
       (let batch_spec_passthrough = [];
            batch_spec_passthrough =
              (if arg_sampling_method a \<noteq> PNone then
                 (let sampling_params = [(''sampling_method'', arg_sampling_method a)];
                      sampling_params =
                        (if arg_sampling_kwargs a \<noteq> PNone then
                           AList.update ''sampling_kwargs'' (arg_sampling_kwargs a)
                             sampling_params
                         else sampling_params)
                  in dict_update batch_spec_passthrough sampling_params)
               else batch_spec_passthrough);
            batch_spec_passthrough =
              (if arg_splitter_method a \<noteq> PNone then
                 (let splitter_params = [(''splitter_method'', arg_splitter_method a)];
                      splitter_params =
                        (if arg_splitter_kwargs a \<noteq> PNone then
                           AList.update ''splitter_kwargs'' (arg_splitter_kwargs a)
                             splitter_params
                         else splitter_params)
                  in dict_update batch_spec_passthrough splitter_params)
               else batch_spec_passthrough)
        in PDict Dict batch_spec_passthrough)
     else arg_batch_spec_passthrough a)"

text \<open>Lines 736 to 789.\<close>

definition catalog_branch :: "arguments \<Rightarrow> pyval \<Rightarrow> outcome" where
  "catalog_branch a datasource_name =
    (if arg_data_connector_query a = PNone
        \<and> arg_batch_filter_parameters a \<noteq> PNone \<and> arg_batch_identifiers a \<noteq> PNone then
       (Inl (ValueError
          ''Must provide either batch_filter_parameters or batch_identifiers, not both.''),
        no_effects a)
     else
       (let (data_connector_query, logged) =
              (if arg_data_connector_query a = PNone then
                 (let (batch_filter_parameters, logged) =
                        (if arg_batch_filter_parameters a = PNone
                            \<and> arg_batch_identifiers a \<noteq> PNone then
                           (arg_batch_identifiers a, [batch_identifiers_deprecation])
                         else if arg_batch_filter_parameters a = PNone
                            \<and> arg_batch_identifiers a = PNone then
                           (PDict Dict (arg_kwargs a), [])
                         else (arg_batch_filter_parameters a, []))
                  in (Inr (PDict IDDict
                        [(''batch_filter_parameters'', batch_filter_parameters),
                         (''limit'', arg_limit a),
                         (''index'', arg_index a),
                         (''custom_filter_function'', arg_custom_filter_function a)]),
                      logged))
               else (IDDict_new (arg_data_connector_query a), []))
        in case data_connector_query of
             Inl e \<Rightarrow>
               (Inl e, \<lparr> caller_runtime_parameters = arg_runtime_parameters a,
                         warnings = logged \<rparr>)
           | Inr data_connector_query \<Rightarrow>
               (BatchRequest_init BatchRequest datasource_name (arg_data_connector_name a)
                  (arg_data_asset_name a) data_connector_query PNone
                  (resolve_batch_spec_passthrough a),
                \<lparr> caller_runtime_parameters = arg_runtime_parameters a,
                  warnings = logged \<rparr>)))"

definition get_batch_request_from_acceptable_arguments :: "arguments \<Rightarrow> outcome" where
  "get_batch_request_from_acceptable_arguments a =
    (case resolve_datasource_name a of
       Inl e \<Rightarrow> (Inl e, no_effects a)
     | Inr datasource_name \<Rightarrow>
        if \<not> isinstance_str datasource_name then
          (Inl (GreatExpectationsTypeError
             (''the first parameter, datasource_name, must be a str, not ''
                @ str_type datasource_name)),
           no_effects a)
        else if provided_count a > 1 then
          (Inl (ValueError ''Must provide only one of batch_data, query, or path.''),
           no_effects a)
        else
          (case key_collision a of
             Inl e \<Rightarrow> (Inl e, no_effects a)
           | Inr collision \<Rightarrow>
              if collision then
                (Inl (ValueError
                   (''If batch_data, query, or path arguments are provided, the same keys ''
                    @ ''cannot appear in the runtime_parameters argument.'')),
                 no_effects a)
              else
                (case arg_batch_request a of
                   ARequest batch_request \<Rightarrow> (Inr batch_request, no_effects a)
                 | NotARequest v \<Rightarrow>
                     if runtime_trigger a then runtime_branch a datasource_name
                     else catalog_branch a datasource_name)))"

text \<open>An example: the request that \<^verbatim>\<open>BatchRequest("s1", "c1", "a1", IDDict(), None, {})\<close> makes.\<close>

definition example_request :: request where
  "example_request =
     \<lparr> br_class = BatchRequest, br_datasource_name = PStr ''s1'',
       br_data_connector_name = PStr ''c1'', br_data_asset_name = PStr ''a1'',
       br_data_connector_query = PDict IDDict [], br_limit = PNone,
       br_runtime_parameters = PNone, br_batch_identifiers = PNone,
       br_batch_spec_passthrough = PDict Dict [] \<rparr>"

section \<open>Duplication of a RuntimeBatchRequest\<close>

text \<open>
  \<^verbatim>\<open>RuntimeBatchRequest.__deepcopy__\<close> stores into objects that are shared, so here the
  dicts held by the attributes of an instance live in a store: an attribute holds a
  value, or the address of a dict.  The entries of such a dict are values; an object
  inside them has its identity, the number in \<open>PObj\<close>, and a dict nested inside
  them is kept by value.  Dict addresses below \<open>next_addr\<close> and object identities
  below \<open>next_obj\<close> are in use.
\<close>

datatype slot = Value pyval | DictRef addr

record heap =
  cells :: "addr \<Rightarrow> dict_class \<times> entries"
  next_addr :: addr
  next_obj :: addr

text \<open>
  The instance attribute \<^verbatim>\<open>__deepcopy__\<close>: absent (the method of the class applies),
  set to None, or set to a method bound to the instance.
\<close>

datatype deepcopy_attribute = ClassMethod | SetToNone | BoundMethod

text \<open>An instance: its \<^verbatim>\<open>__dict__\<close>, in the order the attributes were set.\<close>

record rbr_instance =
  attrs :: "(string \<times> slot) list"
  deepcopy_attr :: deepcopy_attribute

definition getattr :: "rbr_instance \<Rightarrow> string \<Rightarrow> slot" where
  "getattr self name = (case map_of (attrs self) name of None \<Rightarrow> Value PNone | Some s \<Rightarrow> s)"

text \<open>The value an attribute denotes in a store.\<close>

definition read_slot :: "heap \<Rightarrow> slot \<Rightarrow> pyval" where
  "read_slot h s =
     (case s of Value v \<Rightarrow> v | DictRef a \<Rightarrow> PDict (fst (cells h a)) (snd (cells h a)))"

definition store_entries :: "heap \<Rightarrow> addr \<Rightarrow> entries \<Rightarrow> heap" where
  "store_entries h a kvs = h\<lparr> cells := (cells h)(a := (fst (cells h a), kvs)) \<rparr>"

subsection \<open>copy.deepcopy\<close>

text \<open>
  \<^verbatim>\<open>copy.deepcopy(x, memo)\<close> of the standard library.  The memo records, for an object
  already copied, its copy: here one map for the dicts of the store and one for the
  objects inside values.  None, booleans, integers, strings and functions are copied as
  themselves; another object is copied once, to a new object of the same type; a dict
  is copied once, to a new dict of the same class whose entries are the copies of its
  entries, in order.
\<close>

record memo =
  dict_copies :: "addr \<Rightarrow> addr option"
  obj_copies :: "addr \<Rightarrow> addr option"

definition empty_memo :: memo where
  "empty_memo = \<lparr> dict_copies = Map.empty, obj_copies = Map.empty \<rparr>"

fun deepcopy_value ::
    "pyval \<Rightarrow> (addr \<Rightarrow> addr option) \<times> addr \<Rightarrow> pyval \<times> ((addr \<Rightarrow> addr option) \<times> addr)"
  and deepcopy_entries ::
    "entries \<Rightarrow> (addr \<Rightarrow> addr option) \<times> addr \<Rightarrow> entries \<times> ((addr \<Rightarrow> addr option) \<times> addr)"
  where
  "deepcopy_value (PObj t a) (m, n) =
     (case m a of
        Some b \<Rightarrow> (PObj t b, (m, n))
      | None \<Rightarrow> (PObj t n, (m(a \<mapsto> n), Suc n)))"
| "deepcopy_value (PDict c kvs) s =
     (case deepcopy_entries kvs s of (kvs', s') \<Rightarrow> (PDict c kvs', s'))"
| "deepcopy_value PNone s = (PNone, s)"
| "deepcopy_value (PBool b) s = (PBool b, s)"
| "deepcopy_value (PInt i) s = (PInt i, s)"
| "deepcopy_value (PStr x) s = (PStr x, s)"
| "deepcopy_value (PFunc f) s = (PFunc f, s)"
| "deepcopy_entries [] s = ([], s)"
| "deepcopy_entries (kv # kvs) s =
     (case deepcopy_value (snd kv) s of
        (v', s1) \<Rightarrow>
          (case deepcopy_entries kvs s1 of (kvs', s2) \<Rightarrow> ((fst kv, v') # kvs', s2)))"

text \<open>An attribute: a dict in the store is copied to a new address, once.\<close>

definition deepcopy_slot :: "slot \<Rightarrow> heap \<times> memo \<Rightarrow> slot \<times> (heap \<times> memo)" where
  "deepcopy_slot s hm =
    (case hm of (h, m) \<Rightarrow>
      (case s of
         Value v \<Rightarrow>
           (case deepcopy_value v (obj_copies m, next_obj h) of
              (v', (om, n)) \<Rightarrow>
                (Value v', (h\<lparr> next_obj := n \<rparr>, m\<lparr> obj_copies := om \<rparr>)))
       | DictRef a \<Rightarrow>
           (case dict_copies m a of
              Some b \<Rightarrow> (DictRef b, (h, m))
            | None \<Rightarrow>
               (let b = next_addr h in
                case deepcopy_entries (snd (cells h a)) (obj_copies m, next_obj h) of
                  (kvs', (om, n)) \<Rightarrow>
                    (DictRef b,
                     (h\<lparr> cells := (cells h)(b := (fst (cells h a), kvs')),
                         next_addr := Suc b, next_obj := n \<rparr>,
                      \<lparr> dict_copies = (dict_copies m)(a \<mapsto> b), obj_copies = om \<rparr>))))))"

fun deepcopy_attrs ::
  "(string \<times> slot) list \<Rightarrow> heap \<times> memo \<Rightarrow> (string \<times> slot) list \<times> (heap \<times> memo)" where
  "deepcopy_attrs [] hm = ([], hm)"
| "deepcopy_attrs (kv # kvs) hm =
     (case deepcopy_slot (snd kv) hm of
        (v', hm1) \<Rightarrow>
          (case deepcopy_attrs kvs hm1 of (kvs', hm2) \<Rightarrow> ((fst kv, v') # kvs', hm2)))"

text \<open>
  The copy of an instance whose \<^verbatim>\<open>__deepcopy__\<close> is None: a new instance of the class
  whose \<^verbatim>\<open>__dict__\<close> is the deep copy of the \<^verbatim>\<open>__dict__\<close> of the original, the
  \<^verbatim>\<open>__deepcopy__\<close> entry included.
\<close>

definition copy_deepcopy :: "rbr_instance \<Rightarrow> heap \<times> memo \<Rightarrow> rbr_instance \<times> (heap \<times> memo)" where
  "copy_deepcopy x hm =
     (case deepcopy_attrs (attrs x) hm of
        (attrs', hm') \<Rightarrow> (\<lparr> attrs = attrs', deepcopy_attr = deepcopy_attr x \<rparr>, hm'))"

subsection \<open>RuntimeBatchRequest.__deepcopy__\<close>

text \<open>
  Line 449: the address of the dict that \<^verbatim>\<open>_runtime_parameters\<close> holds, when it is a
  dict with the key \<^verbatim>\<open>batch_data\<close>.
\<close>

definition runtime_parameters_with_batch_data :: "rbr_instance \<Rightarrow> heap \<Rightarrow> addr option" where
  "runtime_parameters_with_batch_data self h =
     (case getattr self ''_runtime_parameters'' of
        DictRef a \<Rightarrow> if ''batch_data'' \<in> set (map fst (snd (cells h a))) then Some a else None
      | Value v \<Rightarrow> None)"

text \<open>
  The method returns the copy; the model returns the copy, the instance as the call
  leaves it, and the store and memo.
\<close>

definition RuntimeBatchRequest_deepcopy ::
  "rbr_instance \<Rightarrow> heap \<times> memo \<Rightarrow> rbr_instance \<times> rbr_instance \<times> (heap \<times> memo)" where
  "RuntimeBatchRequest_deepcopy self hm =
    (case hm of (h, memo) \<Rightarrow>
      (case runtime_parameters_with_batch_data self h of
         Some a \<Rightarrow>
           (let batch_data = dict_get (snd (cells h a)) ''batch_data'';
                h = store_entries h a (AList.delete ''batch_data'' (snd (cells h a)));
                self = self\<lparr> deepcopy_attr := SetToNone \<rparr>
            in case copy_deepcopy self (h, memo) of
                 (cp, (h, memo)) \<Rightarrow>
                   (let self = self\<lparr> deepcopy_attr := BoundMethod \<rparr>;
                        cp = cp\<lparr> deepcopy_attr := BoundMethod \<rparr>;
                        h = (case getattr cp ''_runtime_parameters'' of
                               DictRef a' \<Rightarrow>
                                 store_entries h a'
                                   (AList.update ''batch_data'' batch_data (snd (cells h a')))
                             | Value v \<Rightarrow> h);
                        h = store_entries h a
                              (AList.update ''batch_data'' batch_data (snd (cells h a)))
                    in (cp, self, (h, memo))))
       | None \<Rightarrow>
           (let self = self\<lparr> deepcopy_attr := SetToNone \<rparr>
            in case copy_deepcopy self (h, memo) of
                 (cp, hm') \<Rightarrow> (cp, self, hm'))))"

text \<open>The content of a value: the value with the identities of the objects in it left out.\<close>

fun content :: "pyval \<Rightarrow> pyval" where
  "content (PObj t a) = PObj t 0"
| "content (PDict c kvs) = PDict c (map (\<lambda>(k, v). (k, content v)) kvs)"
| "content v = v"

text \<open>An example: a request with a data frame, which its batch identifiers mention too.\<close>

definition example_heap :: heap where
  "example_heap =
     \<lparr> cells = (\<lambda>a. (Dict, []))
         (1 := (Dict, [(''batch_data'', PObj ''pandas.core.frame.DataFrame'' 0),
                       (''reader'', PObj ''Reader'' 1)]),
          2 := (Dict, [(''run'', PStr ''r1''),
                       (''frame'', PObj ''pandas.core.frame.DataFrame'' 0)])),
       next_addr = 3, next_obj = 2 \<rparr>"

definition example_instance :: rbr_instance where
  "example_instance =
     \<lparr> attrs = [(''_datasource_name'', Value (PStr ''s1'')),
                (''_data_connector_name'', Value (PStr ''c1'')),
                (''_data_asset_name'', Value (PStr ''a1'')),
                (''_data_connector_query'', Value PNone),
                (''_limit'', Value PNone),
                (''_runtime_parameters'', DictRef 1),
                (''_batch_identifiers'', DictRef 2),
                (''_batch_spec_passthrough'', Value PNone)],
       deepcopy_attr = ClassMethod \<rparr>"

section \<open>Properties\<close>

subsection \<open>Identity of a BatchDefinition\<close>


lemma filter_same_key:
  "distinct (map fst zs) \<Longrightarrow> k \<in> set zs \<Longrightarrow> filter (\<lambda>x. fst k = fst x) zs = [k]"
proof (induction zs)
  case Nil
  then show ?case by simp
next
  case (Cons z zs)
  show ?case
  proof (cases "k = z")
    case True
    have "filter (\<lambda>x. fst z = fst x) zs = []"
      using Cons.prems(1) by (auto simp: filter_empty_conv image_iff)
    with True show ?thesis by simp
  next
    case False
    with Cons.prems have kin: "k \<in> set zs" by simp
    with Cons.prems(1) have "fst k \<noteq> fst z" by (auto simp: image_iff)
    with Cons.IH Cons.prems(1) kin show ?thesis by simp
  qed
qed

lemma sort_key_permutation:
  assumes "mset xs = mset ys" and "distinct (map fst xs)"
  shows "sort_key fst xs = sort_key fst (ys :: (string \<times> 'a) list)"
proof (rule properties_for_sort_key)
  show "mset (sort_key fst ys) = mset xs" using assms(1) by simp
  show "sorted (map fst (sort_key fst ys))" by simp
next
  fix k assume k: "k \<in> set (sort_key fst ys)"
  have dy: "distinct (map fst ys)"
    proof -
    have "mset (map fst xs) = mset (map fst ys)" using assms(1) by (metis mset_map)
    then show ?thesis using assms(2) by (metis mset_eq_imp_distinct_iff)
  qed
  have ds: "distinct (map fst (sort_key fst ys))"
    proof -
    have "mset (map fst (sort_key fst ys)) = mset (map fst ys)" by simp
    then show ?thesis using dy by (metis mset_eq_imp_distinct_iff)
  qed
  have kx: "k \<in> set xs" using k assms(1) by (metis mset_eq_setD set_sort)
  show "filter (\<lambda>x. fst k = fst x) (sort_key fst ys) = filter (\<lambda>x. fst k = fst x) xs"
    using filter_same_key[OF ds k] filter_same_key[OF assms(2) kx] by simp
qed


lemma canonical_convert_permutation:
  assumes "mset kvs' = mset kvs" and "distinct (map fst kvs)"
  shows "canonical (convert_to_json_serializable (PDict c kvs'))
       = canonical (convert_to_json_serializable (PDict c kvs))"
proof -
  let ?h = "\<lambda>(k, v). (k, canonical (convert_to_json_serializable v))"
  have m: "mset (map ?h kvs) = mset (map ?h kvs')"
    using assms(1) by (metis mset_map)
  have hh: "fst \<circ> ?h = fst" by (auto simp: fun_eq_iff)
  have d: "distinct (map fst (map ?h kvs))" unfolding map_map hh using assms(2) .
  have s: "sort_key fst (map ?h kvs) = sort_key fst (map ?h kvs')"
    by (rule sort_key_permutation[OF m d])
  have cc: "(\<lambda>(k, v). (k, canonical v))
        \<circ> (\<lambda>(k, v). (k, convert_to_json_serializable v)) = ?h"
    by (auto simp: fun_eq_iff)
  show ?thesis
    by (simp only: convert_to_json_serializable.simps canonical.simps map_map cc s)
qed

text \<open>
  C4: the id of a constructed BatchDefinition is a function of the datasource name, the
  data connector name, the data asset name and the batch identifiers alone.  Two
  constructions that agree on the three names, whose identifiers hold the same entries
  in any insertion order, and whose \<^verbatim>\<open>batch_spec_passthrough\<close> is arbitrary, have the
  same id and are equal; and \<^verbatim>\<open>__eq__\<close> holds exactly when the ids match.
\<close>

theorem BatchDefinition_id_identity:
  assumes "BatchDefinition_init dn dcn dan (PDict IDDict kvs) p1 = Inr d1"
    and "BatchDefinition_init dn dcn dan (PDict IDDict kvs') p2 = Inr d2"
    and "mset kvs' = mset kvs" and "distinct (map fst kvs)"
  shows "BatchDefinition_id H d1 = BatchDefinition_id H d2
       \<and> BatchDefinition_eq H d1 d2
       \<and> (\<forall>x y. BatchDefinition_eq H x y
                 = (BatchDefinition_id H x = BatchDefinition_id H y))"
proof -
  have f1: "bd_datasource_name d1 = dn \<and> bd_data_connector_name d1 = dcn
      \<and> bd_data_asset_name d1 = dan \<and> bd_batch_identifiers d1 = PDict IDDict kvs"
    using assms(1) by (auto simp: BatchDefinition_init_def split: option.splits if_splits)
  have f2: "bd_datasource_name d2 = dn \<and> bd_data_connector_name d2 = dcn
      \<and> bd_data_asset_name d2 = dan \<and> bd_batch_identifiers d2 = PDict IDDict kvs'"
    using assms(2) by (auto simp: BatchDefinition_init_def split: option.splits if_splits)
  have c: "canonical (convert_to_json_serializable (PDict IDDict kvs'))
         = canonical (convert_to_json_serializable (PDict IDDict kvs))"
    by (rule canonical_convert_permutation[OF assms(3,4)])
  have "canonical (IDDict_of (BatchDefinition_to_json_dict d1))
      = canonical (IDDict_of (BatchDefinition_to_json_dict d2))"
    using c by (simp add: BatchDefinition_to_json_dict_def IDDict_of_def f1 f2)
  then have "BatchDefinition_id H d1 = BatchDefinition_id H d2"
    by (simp add: BatchDefinition_id_def to_id_def)
  then show ?thesis by (simp add: BatchDefinition_eq_def)
qed

theorem BatchDefinition_id_identity_witness:
  "BatchDefinition_init (PStr ''s'') (PStr ''c'') (PStr ''a'')
      (PDict IDDict [(''year'', PInt 2021), (''month'', PInt 7)]) PNone = Inr
     \<lparr> bd_datasource_name = PStr ''s'', bd_data_connector_name = PStr ''c'',
       bd_data_asset_name = PStr ''a'',
       bd_batch_identifiers = PDict IDDict [(''year'', PInt 2021), (''month'', PInt 7)],
       bd_batch_spec_passthrough = PNone \<rparr>
   \<and> BatchDefinition_init (PStr ''s'') (PStr ''c'') (PStr ''a'')
      (PDict IDDict [(''month'', PInt 7), (''year'', PInt 2021)])
      (PDict Dict [(''reader_method'', PStr ''read_csv'')]) = Inr
     \<lparr> bd_datasource_name = PStr ''s'', bd_data_connector_name = PStr ''c'',
       bd_data_asset_name = PStr ''a'',
       bd_batch_identifiers = PDict IDDict [(''month'', PInt 7), (''year'', PInt 2021)],
       bd_batch_spec_passthrough = PDict Dict [(''reader_method'', PStr ''read_csv'')] \<rparr>
   \<and> BatchDefinition_id type_name
     \<lparr> bd_datasource_name = PStr ''s'', bd_data_connector_name = PStr ''c'',
       bd_data_asset_name = PStr ''a'',
       bd_batch_identifiers = PDict IDDict [(''year'', PInt 2021), (''month'', PInt 7)],
       bd_batch_spec_passthrough = PNone \<rparr>
   = BatchDefinition_id type_name
     \<lparr> bd_datasource_name = PStr ''s'', bd_data_connector_name = PStr ''c'',
       bd_data_asset_name = PStr ''a'',
       bd_batch_identifiers = PDict IDDict [(''month'', PInt 7), (''year'', PInt 2021)],
       bd_batch_spec_passthrough = PDict Dict [(''reader_method'', PStr ''read_csv'')] \<rparr>"
proof -
  have 1: "BatchDefinition_init (PStr ''s'') (PStr ''c'') (PStr ''a'')
      (PDict IDDict [(''year'', PInt 2021), (''month'', PInt 7)]) PNone = Inr
     \<lparr> bd_datasource_name = PStr ''s'', bd_data_connector_name = PStr ''c'',
       bd_data_asset_name = PStr ''a'',
       bd_batch_identifiers = PDict IDDict [(''year'', PInt 2021), (''month'', PInt 7)],
       bd_batch_spec_passthrough = PNone \<rparr>"
    by (simp add: BatchDefinition_init_def BatchDefinition_validate_batch_definition_def)
  have 2: "BatchDefinition_init (PStr ''s'') (PStr ''c'') (PStr ''a'')
      (PDict IDDict [(''month'', PInt 7), (''year'', PInt 2021)])
      (PDict Dict [(''reader_method'', PStr ''read_csv'')]) = Inr
     \<lparr> bd_datasource_name = PStr ''s'', bd_data_connector_name = PStr ''c'',
       bd_data_asset_name = PStr ''a'',
       bd_batch_identifiers = PDict IDDict [(''month'', PInt 7), (''year'', PInt 2021)],
       bd_batch_spec_passthrough = PDict Dict [(''reader_method'', PStr ''read_csv'')] \<rparr>"
    by (simp add: BatchDefinition_init_def BatchDefinition_validate_batch_definition_def)
  have 3: "mset [(''month'', PInt 7), (''year'', PInt 2021)]
         = mset [(''year'', PInt 2021), (''month'', PInt 7)]" by (simp add: add.commute)
  have 4: "distinct (map fst [(''year'', PInt 2021), (''month'', PInt 7)])" by simp
  from BatchDefinition_id_identity[OF 1 2 3 4, of type_name] have
    "BatchDefinition_id type_name
     \<lparr> bd_datasource_name = PStr ''s'', bd_data_connector_name = PStr ''c'',
       bd_data_asset_name = PStr ''a'',
       bd_batch_identifiers = PDict IDDict [(''year'', PInt 2021), (''month'', PInt 7)],
       bd_batch_spec_passthrough = PNone \<rparr>
   = BatchDefinition_id type_name
     \<lparr> bd_datasource_name = PStr ''s'', bd_data_connector_name = PStr ''c'',
       bd_data_asset_name = PStr ''a'',
       bd_batch_identifiers = PDict IDDict [(''month'', PInt 7), (''year'', PInt 2021)],
       bd_batch_spec_passthrough = PDict Dict [(''reader_method'', PStr ''read_csv'')] \<rparr>"
    by (rule conjunct1)
  with 1 2 show ?thesis by (intro conjI)
qed

subsection \<open>Validation at construction\<close>

lemma truthy_not_None: "truthy v \<Longrightarrow> v \<noteq> PNone"
  by auto

lemma type_is_IDDict_isinstance: "type_is_IDDict v \<Longrightarrow> isinstance_IDDict v"
  by (cases v) auto

lemma validate_batch_definition_None:
  "BatchDefinition_validate_batch_definition dn dcn dan bi = None \<longleftrightarrow>
     dn \<noteq> PNone \<and> (truthy dn \<longrightarrow> isinstance_str dn)
   \<and> dcn \<noteq> PNone \<and> (truthy dcn \<longrightarrow> isinstance_str dcn)
   \<and> dan \<noteq> PNone \<and> (truthy dan \<longrightarrow> isinstance_str dan)
   \<and> (truthy bi \<longrightarrow> isinstance_IDDict bi)"
  unfolding BatchDefinition_validate_batch_definition_def by simp

lemma BatchDefinition_init_Inr:
  "BatchDefinition_init dn dcn dan bi bsp = Inr d \<longleftrightarrow>
     BatchDefinition_validate_batch_definition dn dcn dan bi = None \<and> type_is_IDDict bi
     \<and> d = \<lparr> bd_datasource_name = dn, bd_data_connector_name = dcn,
               bd_data_asset_name = dan, bd_batch_identifiers = bi,
               bd_batch_spec_passthrough = bsp \<rparr>"
  unfolding BatchDefinition_init_def by (auto split: option.splits)

lemma BatchDefinition_init_Inl:
  "BatchDefinition_validate_batch_definition dn dcn dan bi = Some e \<Longrightarrow>
     BatchDefinition_init dn dcn dan bi bsp = Inl e"
  unfolding BatchDefinition_init_def by simp

text \<open>
  C6, as the code has it: after a successful construction no name is None, every truthy
  name is a string, \<^verbatim>\<open>batch_identifiers\<close> is exactly an \<^verbatim>\<open>IDDict\<close>, and the
  instance holds the five arguments; non-empty string names with an \<^verbatim>\<open>IDDict\<close> are
  accepted.  The names are checked in the order datasource, data connector, data asset:
  None raises a ValueError, a truthy value that is not a string raises a TypeError whose
  message names the field and the type given; then a truthy \<^verbatim>\<open>batch_identifiers\<close>
  that is not an \<^verbatim>\<open>IDDict\<close> raises a TypeError.
\<close>

theorem BatchDefinition_init_validation:
  "(BatchDefinition_init dn dcn dan bi bsp = Inr d \<longrightarrow>
      dn \<noteq> PNone \<and> dcn \<noteq> PNone \<and> dan \<noteq> PNone
      \<and> (truthy dn \<longrightarrow> isinstance_str dn) \<and> (truthy dcn \<longrightarrow> isinstance_str dcn)
      \<and> (truthy dan \<longrightarrow> isinstance_str dan)
      \<and> type_is_IDDict bi
      \<and> d = \<lparr> bd_datasource_name = dn, bd_data_connector_name = dcn,
               bd_data_asset_name = dan, bd_batch_identifiers = bi,
               bd_batch_spec_passthrough = bsp \<rparr>)
   \<and> (truthy dn \<and> isinstance_str dn \<and> truthy dcn \<and> isinstance_str dcn
        \<and> truthy dan \<and> isinstance_str dan \<and> type_is_IDDict bi \<longrightarrow>
      BatchDefinition_init dn dcn dan bi bsp
        = Inr \<lparr> bd_datasource_name = dn, bd_data_connector_name = dcn,
                bd_data_asset_name = dan, bd_batch_identifiers = bi,
                bd_batch_spec_passthrough = bsp \<rparr>)
   \<and> (dn = PNone \<longrightarrow> BatchDefinition_init dn dcn dan bi bsp
          = Inl (ValueError ''A valid datasource must be specified.''))
   \<and> (truthy dn \<and> \<not> isinstance_str dn \<longrightarrow> BatchDefinition_init dn dcn dan bi bsp
          = Inl (TypeError (illegal_type
              ''The type of an datasource name must be a string (Python str).'' dn)))
   \<and> (truthy dn \<and> isinstance_str dn \<and> dcn = PNone \<longrightarrow>
        BatchDefinition_init dn dcn dan bi bsp
          = Inl (ValueError ''A valid data_connector must be specified.''))
   \<and> (truthy dn \<and> isinstance_str dn \<and> truthy dcn \<and> \<not> isinstance_str dcn \<longrightarrow>
        BatchDefinition_init dn dcn dan bi bsp
          = Inl (TypeError (illegal_type
              ''The type of a data_connector name must be a string (Python str).'' dcn)))
   \<and> (truthy dn \<and> isinstance_str dn \<and> truthy dcn \<and> isinstance_str dcn \<and> dan = PNone \<longrightarrow>
        BatchDefinition_init dn dcn dan bi bsp
          = Inl (ValueError ''A valid data_asset_name must be specified.''))
   \<and> (truthy dn \<and> isinstance_str dn \<and> truthy dcn \<and> isinstance_str dcn
        \<and> truthy dan \<and> \<not> isinstance_str dan \<longrightarrow>
        BatchDefinition_init dn dcn dan bi bsp
          = Inl (TypeError (illegal_type
              ''The type of a data_asset name must be a string (Python str).'' dan)))
   \<and> (truthy dn \<and> isinstance_str dn \<and> truthy dcn \<and> isinstance_str dcn
        \<and> truthy dan \<and> isinstance_str dan \<and> truthy bi \<and> \<not> isinstance_IDDict bi \<longrightarrow>
        BatchDefinition_init dn dcn dan bi bsp
          = Inl (TypeError (illegal_type
              ''The type of batch_identifiers must be an IDDict object.'' bi)))"
proof (intro conjI impI)
  assume "BatchDefinition_init dn dcn dan bi bsp = Inr d"
  then have v: "BatchDefinition_validate_batch_definition dn dcn dan bi = None"
    and t: "type_is_IDDict bi"
    and d: "d = \<lparr> bd_datasource_name = dn, bd_data_connector_name = dcn,
               bd_data_asset_name = dan, bd_batch_identifiers = bi,
               bd_batch_spec_passthrough = bsp \<rparr>"
    by (simp_all add: BatchDefinition_init_Inr)
  from v show "dn \<noteq> PNone" "dcn \<noteq> PNone" "dan \<noteq> PNone"
    by (simp_all add: validate_batch_definition_None)
  from t show "type_is_IDDict bi" .
  from d show "d = \<lparr> bd_datasource_name = dn, bd_data_connector_name = dcn,
               bd_data_asset_name = dan, bd_batch_identifiers = bi,
               bd_batch_spec_passthrough = bsp \<rparr>" .
  { assume "truthy dn" with v show "isinstance_str dn"
      by (simp add: validate_batch_definition_None) }
  { assume "truthy dcn" with v show "isinstance_str dcn"
      by (simp add: validate_batch_definition_None) }
  { assume "truthy dan" with v show "isinstance_str dan"
      by (simp add: validate_batch_definition_None) }
next
  assume a: "truthy dn \<and> isinstance_str dn \<and> truthy dcn \<and> isinstance_str dcn
        \<and> truthy dan \<and> isinstance_str dan \<and> type_is_IDDict bi"
  then have "BatchDefinition_validate_batch_definition dn dcn dan bi = None"
    by (simp add: validate_batch_definition_None truthy_not_None type_is_IDDict_isinstance)
  with a show "BatchDefinition_init dn dcn dan bi bsp
        = Inr \<lparr> bd_datasource_name = dn, bd_data_connector_name = dcn,
                bd_data_asset_name = dan, bd_batch_identifiers = bi,
                bd_batch_spec_passthrough = bsp \<rparr>"
    by (simp add: BatchDefinition_init_Inr)
next
  assume "dn = PNone"
  then show "BatchDefinition_init dn dcn dan bi bsp
          = Inl (ValueError ''A valid datasource must be specified.'')"
    by (intro BatchDefinition_init_Inl)
       (simp add: BatchDefinition_validate_batch_definition_def)
next
  assume "truthy dn \<and> \<not> isinstance_str dn"
  then show "BatchDefinition_init dn dcn dan bi bsp
          = Inl (TypeError (illegal_type
              ''The type of an datasource name must be a string (Python str).'' dn))"
    by (intro BatchDefinition_init_Inl)
       (simp add: BatchDefinition_validate_batch_definition_def truthy_not_None)
next
  assume "truthy dn \<and> isinstance_str dn \<and> dcn = PNone"
  then show "BatchDefinition_init dn dcn dan bi bsp
          = Inl (ValueError ''A valid data_connector must be specified.'')"
    by (intro BatchDefinition_init_Inl)
       (simp add: BatchDefinition_validate_batch_definition_def truthy_not_None)
next
  assume "truthy dn \<and> isinstance_str dn \<and> truthy dcn \<and> \<not> isinstance_str dcn"
  then show "BatchDefinition_init dn dcn dan bi bsp
          = Inl (TypeError (illegal_type
              ''The type of a data_connector name must be a string (Python str).'' dcn))"
    by (intro BatchDefinition_init_Inl)
       (simp add: BatchDefinition_validate_batch_definition_def truthy_not_None)
next
  assume "truthy dn \<and> isinstance_str dn \<and> truthy dcn \<and> isinstance_str dcn \<and> dan = PNone"
  then show "BatchDefinition_init dn dcn dan bi bsp
          = Inl (ValueError ''A valid data_asset_name must be specified.'')"
    by (intro BatchDefinition_init_Inl)
       (simp add: BatchDefinition_validate_batch_definition_def truthy_not_None)
next
  assume "truthy dn \<and> isinstance_str dn \<and> truthy dcn \<and> isinstance_str dcn
        \<and> truthy dan \<and> \<not> isinstance_str dan"
  then show "BatchDefinition_init dn dcn dan bi bsp
          = Inl (TypeError (illegal_type
              ''The type of a data_asset name must be a string (Python str).'' dan))"
    by (intro BatchDefinition_init_Inl)
       (simp add: BatchDefinition_validate_batch_definition_def truthy_not_None)
next
  assume "truthy dn \<and> isinstance_str dn \<and> truthy dcn \<and> isinstance_str dcn
        \<and> truthy dan \<and> isinstance_str dan \<and> truthy bi \<and> \<not> isinstance_IDDict bi"
  then show "BatchDefinition_init dn dcn dan bi bsp
          = Inl (TypeError (illegal_type
              ''The type of batch_identifiers must be an IDDict object.'' bi))"
    by (intro BatchDefinition_init_Inl)
       (simp add: BatchDefinition_validate_batch_definition_def truthy_not_None)
qed


theorem BatchDefinition_init_validation_witness:
  "BatchDefinition_init (PStr ''s'') (PStr ''c'') (PStr ''a'')
       (PDict IDDict [(''year'', PInt 2021)]) PNone
     = Inr \<lparr> bd_datasource_name = PStr ''s'', bd_data_connector_name = PStr ''c'',
             bd_data_asset_name = PStr ''a'',
             bd_batch_identifiers = PDict IDDict [(''year'', PInt 2021)],
             bd_batch_spec_passthrough = PNone \<rparr>
   \<and> BatchDefinition_init PNone (PStr ''c'') (PStr ''a'') (PDict IDDict []) PNone
     = Inl (ValueError ''A valid datasource must be specified.'')
   \<and> BatchDefinition_init (PInt 7) (PStr ''c'') (PStr ''a'') (PDict IDDict []) PNone
     = Inl (TypeError (illegal_type
              ''The type of an datasource name must be a string (Python str).'' (PInt 7)))
   \<and> BatchDefinition_init (PStr ''s'') (PStr ''c'') (PStr ''a'')
        (PDict Dict [(''year'', PInt 2021)]) PNone
     = Inl (TypeError (illegal_type
              ''The type of batch_identifiers must be an IDDict object.''
              (PDict Dict [(''year'', PInt 2021)])))"
proof (intro conjI)
  show "BatchDefinition_init (PStr ''s'') (PStr ''c'') (PStr ''a'')
       (PDict IDDict [(''year'', PInt 2021)]) PNone
     = Inr \<lparr> bd_datasource_name = PStr ''s'', bd_data_connector_name = PStr ''c'',
             bd_data_asset_name = PStr ''a'',
             bd_batch_identifiers = PDict IDDict [(''year'', PInt 2021)],
             bd_batch_spec_passthrough = PNone \<rparr>"
    by (rule BatchDefinition_init_validation
              [THEN conjunct2, THEN conjunct1, rule_format]) simp
  show "BatchDefinition_init PNone (PStr ''c'') (PStr ''a'') (PDict IDDict []) PNone
     = Inl (ValueError ''A valid datasource must be specified.'')"
    by (rule BatchDefinition_init_validation
              [THEN conjunct2, THEN conjunct2, THEN conjunct1, rule_format]) simp
  show "BatchDefinition_init (PInt 7) (PStr ''c'') (PStr ''a'') (PDict IDDict []) PNone
     = Inl (TypeError (illegal_type
              ''The type of an datasource name must be a string (Python str).'' (PInt 7)))"
    by (rule BatchDefinition_init_validation
              [THEN conjunct2, THEN conjunct2, THEN conjunct2, THEN conjunct1, rule_format])
       simp
  show "BatchDefinition_init (PStr ''s'') (PStr ''c'') (PStr ''a'')
        (PDict Dict [(''year'', PInt 2021)]) PNone
     = Inl (TypeError (illegal_type
              ''The type of batch_identifiers must be an IDDict object.''
              (PDict Dict [(''year'', PInt 2021)])))"
    by (rule BatchDefinition_init_validation
              [THEN conjunct2, THEN conjunct2, THEN conjunct2, THEN conjunct2,
               THEN conjunct2, THEN conjunct2, THEN conjunct2, THEN conjunct2, rule_format])
       simp
qed

text \<open>
  The construction succeeds with an empty datasource name: the name fields of an
  instance are not always non-empty.
\<close>

theorem BatchDefinition_init_empty_name_counterexample:
  "BatchDefinition_init (PStr []) (PStr ''c'') (PStr ''a'') (PDict IDDict []) PNone
     = Inr \<lparr> bd_datasource_name = PStr [], bd_data_connector_name = PStr ''c'',
             bd_data_asset_name = PStr ''a'', bd_batch_identifiers = PDict IDDict [],
             bd_batch_spec_passthrough = PNone \<rparr>"
  by (simp add: BatchDefinition_init_def BatchDefinition_validate_batch_definition_def)

lemma validate_init_parameters_names:
  "BatchRequest_validate_init_parameters dn dcn dan PNone PNone = None \<longleftrightarrow>
     truthy dn \<and> isinstance_str dn \<and> truthy dcn \<and> isinstance_str dcn
     \<and> truthy dan \<and> isinstance_str dan"
  unfolding BatchRequest_validate_init_parameters_def by auto

lemma validate_init_parameters_names_TypeError:
  "BatchRequest_validate_init_parameters dn dcn dan PNone PNone = Some e \<Longrightarrow> \<exists>m. e = TypeError m"
  unfolding BatchRequest_validate_init_parameters_def by (auto split: if_splits)

lemma RuntimeBatchRequest_init_parent_error:
  "BatchRequest_validate_init_parameters dn dcn dan PNone PNone = Some e \<Longrightarrow>
     RuntimeBatchRequest_init dn dcn dan rp bi bsp = Inl e"
  unfolding RuntimeBatchRequest_init_def BatchRequest_init_def by simp

lemma RuntimeBatchRequest_init_parent_ok:
  "BatchRequest_validate_init_parameters dn dcn dan PNone PNone = None \<Longrightarrow>
     RuntimeBatchRequest_init dn dcn dan rp bi bsp =
      (case BatchRequest_validate_runtime_batch_request_specific_init_parameters rp bi bsp of
         Some e \<Rightarrow> Inl e
       | None \<Rightarrow> Inr \<lparr> br_class = RuntimeBatchRequest, br_datasource_name = dn,
                    br_data_connector_name = dcn, br_data_asset_name = dan,
                    br_data_connector_query = PNone, br_limit = PNone,
                    br_runtime_parameters = rp, br_batch_identifiers = bi,
                    br_batch_spec_passthrough = bsp \<rparr>)"
  unfolding RuntimeBatchRequest_init_def BatchRequest_init_def BatchRequestBase_init_def
  by (simp split: option.splits)

text \<open>
  C7: \<^verbatim>\<open>RuntimeBatchRequest.__init__\<close> first runs the validation of its parent on the
  three names, with no \<^verbatim>\<open>data_connector_query\<close> and no \<^verbatim>\<open>limit\<close>, whose
  failures are type errors; then it raises a TypeError unless \<^verbatim>\<open>runtime_parameters\<close>
  is a non-empty dict, a TypeError unless \<^verbatim>\<open>batch_identifiers\<close> is a non-empty dict,
  and a TypeError when \<^verbatim>\<open>batch_spec_passthrough\<close> is truthy and not a dict; otherwise
  the instance carries the runtime parameters and batch identifiers supplied.
\<close>

theorem RuntimeBatchRequest_init_validation:
  "(BatchRequest_validate_init_parameters dn dcn dan PNone PNone = Some e \<longrightarrow>
      RuntimeBatchRequest_init dn dcn dan rp bi bsp = Inl e \<and> (\<exists>m. e = TypeError m))
   \<and> (BatchRequest_validate_init_parameters dn dcn dan PNone PNone = None
        \<and> \<not> (truthy rp \<and> isinstance_dict rp) \<longrightarrow>
        RuntimeBatchRequest_init dn dcn dan rp bi bsp = Inl (TypeError (illegal_type
            ''The type for runtime_parameters must be a dict object.'' rp)))
   \<and> (BatchRequest_validate_init_parameters dn dcn dan PNone PNone = None
        \<and> truthy rp \<and> isinstance_dict rp \<and> \<not> (truthy bi \<and> isinstance_dict bi) \<longrightarrow>
        RuntimeBatchRequest_init dn dcn dan rp bi bsp = Inl (TypeError (illegal_type
            (''The type for batch_identifiers must be a dict object, with keys being '' @
             ''identifiers defined in the data connector configuration.'') bi)))
   \<and> (BatchRequest_validate_init_parameters dn dcn dan PNone PNone = None
        \<and> truthy rp \<and> isinstance_dict rp \<and> truthy bi \<and> isinstance_dict bi
        \<and> truthy bsp \<and> \<not> isinstance_dict bsp \<longrightarrow>
        RuntimeBatchRequest_init dn dcn dan rp bi bsp = Inl (TypeError (illegal_type
            ''The type for batch_spec_passthrough must be a dict object.'' bsp)))
   \<and> (BatchRequest_validate_init_parameters dn dcn dan PNone PNone = None
        \<and> truthy rp \<and> isinstance_dict rp \<and> truthy bi \<and> isinstance_dict bi
        \<and> (truthy bsp \<longrightarrow> isinstance_dict bsp) \<longrightarrow>
        RuntimeBatchRequest_init dn dcn dan rp bi bsp
          = Inr \<lparr> br_class = RuntimeBatchRequest, br_datasource_name = dn,
                  br_data_connector_name = dcn, br_data_asset_name = dan,
                  br_data_connector_query = PNone, br_limit = PNone,
                  br_runtime_parameters = rp, br_batch_identifiers = bi,
                  br_batch_spec_passthrough = bsp \<rparr>)
   \<and> (BatchRequest_validate_init_parameters dn dcn dan PNone PNone = None
        \<longleftrightarrow> truthy dn \<and> isinstance_str dn \<and> truthy dcn \<and> isinstance_str dcn
            \<and> truthy dan \<and> isinstance_str dan)"
proof (intro conjI impI)
  assume "BatchRequest_validate_init_parameters dn dcn dan PNone PNone = Some e"
  then show "RuntimeBatchRequest_init dn dcn dan rp bi bsp = Inl e" "\<exists>m. e = TypeError m"
    by (simp_all add: RuntimeBatchRequest_init_parent_error
          validate_init_parameters_names_TypeError)
next
  assume "BatchRequest_validate_init_parameters dn dcn dan PNone PNone = None
        \<and> \<not> (truthy rp \<and> isinstance_dict rp)"
  then show "RuntimeBatchRequest_init dn dcn dan rp bi bsp = Inl (TypeError (illegal_type
            ''The type for runtime_parameters must be a dict object.'' rp))"
    by (simp add: RuntimeBatchRequest_init_parent_ok
          BatchRequest_validate_runtime_batch_request_specific_init_parameters_def)
next
  assume "BatchRequest_validate_init_parameters dn dcn dan PNone PNone = None
        \<and> truthy rp \<and> isinstance_dict rp \<and> \<not> (truthy bi \<and> isinstance_dict bi)"
  then show "RuntimeBatchRequest_init dn dcn dan rp bi bsp = Inl (TypeError (illegal_type
            (''The type for batch_identifiers must be a dict object, with keys being '' @
             ''identifiers defined in the data connector configuration.'') bi))"
    by (simp add: RuntimeBatchRequest_init_parent_ok
          BatchRequest_validate_runtime_batch_request_specific_init_parameters_def)
next
  assume "BatchRequest_validate_init_parameters dn dcn dan PNone PNone = None
        \<and> truthy rp \<and> isinstance_dict rp \<and> truthy bi \<and> isinstance_dict bi
        \<and> truthy bsp \<and> \<not> isinstance_dict bsp"
  then show "RuntimeBatchRequest_init dn dcn dan rp bi bsp = Inl (TypeError (illegal_type
            ''The type for batch_spec_passthrough must be a dict object.'' bsp))"
    by (simp add: RuntimeBatchRequest_init_parent_ok
          BatchRequest_validate_runtime_batch_request_specific_init_parameters_def)
next
  assume "BatchRequest_validate_init_parameters dn dcn dan PNone PNone = None
        \<and> truthy rp \<and> isinstance_dict rp \<and> truthy bi \<and> isinstance_dict bi
        \<and> (truthy bsp \<longrightarrow> isinstance_dict bsp)"
  then show "RuntimeBatchRequest_init dn dcn dan rp bi bsp
          = Inr \<lparr> br_class = RuntimeBatchRequest, br_datasource_name = dn,
                  br_data_connector_name = dcn, br_data_asset_name = dan,
                  br_data_connector_query = PNone, br_limit = PNone,
                  br_runtime_parameters = rp, br_batch_identifiers = bi,
                  br_batch_spec_passthrough = bsp \<rparr>"
    by (simp add: RuntimeBatchRequest_init_parent_ok
          BatchRequest_validate_runtime_batch_request_specific_init_parameters_def)
next
  show "BatchRequest_validate_init_parameters dn dcn dan PNone PNone = None
        \<longleftrightarrow> truthy dn \<and> isinstance_str dn \<and> truthy dcn \<and> isinstance_str dcn
            \<and> truthy dan \<and> isinstance_str dan"
    by (rule validate_init_parameters_names)
qed

lemma names_ok_example:
  "BatchRequest_validate_init_parameters (PStr ''s'') (PStr ''c'') (PStr ''a'') PNone PNone = None"
  by (simp add: validate_init_parameters_names)

theorem RuntimeBatchRequest_init_validation_witness:
  "RuntimeBatchRequest_init (PStr ''s'') (PStr ''c'') (PStr ''a'')
      (PDict Dict [(''query'', PStr ''SELECT 1'')]) (PDict Dict [(''k'', PStr ''v'')]) PNone
     = Inr \<lparr> br_class = RuntimeBatchRequest, br_datasource_name = PStr ''s'',
             br_data_connector_name = PStr ''c'', br_data_asset_name = PStr ''a'',
             br_data_connector_query = PNone, br_limit = PNone,
             br_runtime_parameters = PDict Dict [(''query'', PStr ''SELECT 1'')],
             br_batch_identifiers = PDict Dict [(''k'', PStr ''v'')],
             br_batch_spec_passthrough = PNone \<rparr>
   \<and> RuntimeBatchRequest_init (PStr ''s'') (PStr ''c'') (PStr ''a'')
      (PDict Dict []) (PDict Dict [(''k'', PStr ''v'')]) PNone
     = Inl (TypeError (illegal_type
            ''The type for runtime_parameters must be a dict object.'' (PDict Dict [])))
   \<and> RuntimeBatchRequest_init (PStr ''s'') (PStr ''c'') (PStr ''a'')
      (PDict Dict [(''query'', PStr ''SELECT 1'')]) PNone PNone
     = Inl (TypeError (illegal_type
            (''The type for batch_identifiers must be a dict object, with keys being '' @
             ''identifiers defined in the data connector configuration.'') PNone))
   \<and> RuntimeBatchRequest_init (PStr ''s'') (PStr ''c'') (PStr ''a'')
      (PDict Dict [(''query'', PStr ''SELECT 1'')]) (PDict Dict [(''k'', PStr ''v'')]) (PInt 3)
     = Inl (TypeError (illegal_type
            ''The type for batch_spec_passthrough must be a dict object.'' (PInt 3)))"
proof (intro conjI)
  show "RuntimeBatchRequest_init (PStr ''s'') (PStr ''c'') (PStr ''a'')
      (PDict Dict [(''query'', PStr ''SELECT 1'')]) (PDict Dict [(''k'', PStr ''v'')]) PNone
     = Inr \<lparr> br_class = RuntimeBatchRequest, br_datasource_name = PStr ''s'',
             br_data_connector_name = PStr ''c'', br_data_asset_name = PStr ''a'',
             br_data_connector_query = PNone, br_limit = PNone,
             br_runtime_parameters = PDict Dict [(''query'', PStr ''SELECT 1'')],
             br_batch_identifiers = PDict Dict [(''k'', PStr ''v'')],
             br_batch_spec_passthrough = PNone \<rparr>"
    by (rule RuntimeBatchRequest_init_validation
          [THEN conjunct2, THEN conjunct2, THEN conjunct2, THEN conjunct2, THEN conjunct1,
           rule_format])
       (simp add: names_ok_example)
  show "RuntimeBatchRequest_init (PStr ''s'') (PStr ''c'') (PStr ''a'')
      (PDict Dict []) (PDict Dict [(''k'', PStr ''v'')]) PNone
     = Inl (TypeError (illegal_type
            ''The type for runtime_parameters must be a dict object.'' (PDict Dict [])))"
    by (rule RuntimeBatchRequest_init_validation
          [THEN conjunct2, THEN conjunct1, rule_format])
       (simp add: names_ok_example)
  show "RuntimeBatchRequest_init (PStr ''s'') (PStr ''c'') (PStr ''a'')
      (PDict Dict [(''query'', PStr ''SELECT 1'')]) PNone PNone
     = Inl (TypeError (illegal_type
            (''The type for batch_identifiers must be a dict object, with keys being '' @
             ''identifiers defined in the data connector configuration.'') PNone))"
    by (rule RuntimeBatchRequest_init_validation
          [THEN conjunct2, THEN conjunct2, THEN conjunct1, rule_format])
       (simp add: names_ok_example)
  show "RuntimeBatchRequest_init (PStr ''s'') (PStr ''c'') (PStr ''a'')
      (PDict Dict [(''query'', PStr ''SELECT 1'')]) (PDict Dict [(''k'', PStr ''v'')]) (PInt 3)
     = Inl (TypeError (illegal_type
            ''The type for batch_spec_passthrough must be a dict object.'' (PInt 3)))"
    by (rule RuntimeBatchRequest_init_validation
          [THEN conjunct2, THEN conjunct2, THEN conjunct2, THEN conjunct1, rule_format])
       (simp add: names_ok_example)
qed

subsection \<open>The JSON form of a request\<close>

lemma update_fresh: "k \<notin> fst ` set xs \<Longrightarrow> AList.update k v xs = xs @ [(k, v)]"
  by (induction xs) auto

lemma keys_optional_entry: "fst ` set (optional_entry k v) \<subseteq> {k}"
  by (auto simp: optional_entry_def)

lemma set_if_not_None_fresh:
  "k \<notin> fst ` set xs \<Longrightarrow> set_if_not_None k v xs = xs @ optional_entry k v"
  by (simp add: set_if_not_None_def optional_entry_def update_fresh)

lemma to_json_dict_entries:
  assumes "json_data_connector_query (br_data_connector_query self) = Inr q'"
    and "(if br_runtime_parameters self = PNone then Inr PNone
          else json_runtime_parameters (br_runtime_parameters self)) = Inr p'"
  shows "BatchRequestBase_to_json_dict self = Inr (filter_properties_dict (
     [(''datasource_name'', br_datasource_name self),
      (''data_connector_name'', br_data_connector_name self),
      (''data_asset_name'', br_data_asset_name self),
      (''data_connector_query'', q')]
     @ optional_entry ''batch_spec_passthrough'' (br_batch_spec_passthrough self)
     @ optional_entry ''limit'' (br_limit self)
     @ optional_entry ''batch_identifiers'' (br_batch_identifiers self)
     @ optional_entry ''runtime_parameters'' p'))"
proof -
  let ?base = "[(''datasource_name'', br_datasource_name self),
      (''data_connector_name'', br_data_connector_name self),
      (''data_asset_name'', br_data_asset_name self),
      (''data_connector_query'', q')]"
  let ?o1 = "optional_entry ''batch_spec_passthrough'' (br_batch_spec_passthrough self)"
  let ?o2 = "optional_entry ''limit'' (br_limit self)"
  let ?o3 = "optional_entry ''batch_identifiers'' (br_batch_identifiers self)"
  have e1: "set_if_not_None ''batch_spec_passthrough'' (br_batch_spec_passthrough self) ?base
      = ?base @ ?o1"
    by (rule set_if_not_None_fresh) simp
  have e2: "set_if_not_None ''limit'' (br_limit self) (?base @ ?o1) = (?base @ ?o1) @ ?o2"
    by (rule set_if_not_None_fresh) (auto simp: optional_entry_def)
  have e3: "set_if_not_None ''batch_identifiers'' (br_batch_identifiers self)
        ((?base @ ?o1) @ ?o2) = ((?base @ ?o1) @ ?o2) @ ?o3"
    by (rule set_if_not_None_fresh) (auto simp: optional_entry_def)
  have e4: "AList.update ''runtime_parameters'' p' (((?base @ ?o1) @ ?o2) @ ?o3)
      = (((?base @ ?o1) @ ?o2) @ ?o3) @ [(''runtime_parameters'', p')]"
    by (rule update_fresh) (auto simp: optional_entry_def)
  let ?j3 = "set_if_not_None ''batch_identifiers'' (br_batch_identifiers self)
               (set_if_not_None ''limit'' (br_limit self)
                 (set_if_not_None ''batch_spec_passthrough'' (br_batch_spec_passthrough self)
                    ?base))"
  have j3: "?j3 = ((?base @ ?o1) @ ?o2) @ ?o3"
    by (simp only: e1 e2 e3)
  have body: "BatchRequestBase_to_json_dict self =
      (if br_runtime_parameters self \<noteq> PNone then
         (case json_runtime_parameters (br_runtime_parameters self) of
            Inl e \<Rightarrow> Inl e
          | Inr p \<Rightarrow> Inr (filter_properties_dict (AList.update ''runtime_parameters'' p ?j3)))
       else Inr (filter_properties_dict ?j3))"
    by (simp add: BatchRequestBase_to_json_dict_def Let_def assms(1))
  show ?thesis
  proof (cases "br_runtime_parameters self = PNone")
    case True
    with assms(2) have "p' = PNone" by simp
    then have "optional_entry ''runtime_parameters'' p' = []" by (simp add: optional_entry_def)
    with True show ?thesis
      unfolding body j3 by simp
  next
    case False
    with assms(2) have p: "json_runtime_parameters (br_runtime_parameters self) = Inr p'" by simp
    then have "p' \<noteq> PNone"
      by (auto simp: json_runtime_parameters_def Let_def split: pyval.splits if_splits)
    then have o4: "optional_entry ''runtime_parameters'' p' = [(''runtime_parameters'', p')]"
      by (simp add: optional_entry_def)
    have "BatchRequestBase_to_json_dict self = Inr (filter_properties_dict
        ((((?base @ ?o1) @ ?o2) @ ?o3) @ [(''runtime_parameters'', p')]))"
      unfolding body j3 using False p by (simp only: e4 if_True sum.case not_False_eq_True)
    then show ?thesis unfolding o4 by simp
  qed
qed


lemma map_of_filter_key:
  "map_of (filter (\<lambda>(key, value). key \<noteq> b) kvs) k = (if k = b then None else map_of kvs k)"
  by (induction kvs) auto

lemma json_runtime_parameters_dict:
  "\<exists>p2. json_runtime_parameters (PDict c p) = Inr (PDict Dict p2)
     \<and> map_of p2 ''batch_data'' =
         (if dict_get p ''batch_data'' = PNone then None
          else Some (PStr (str_type (dict_get p ''batch_data''))))
     \<and> (\<forall>k. k \<noteq> ''batch_data'' \<longrightarrow> map_of p2 k = map_of p k)"
proof (cases "dict_get p ''batch_data'' = PNone")
  case True
  then show ?thesis
    by (simp add: json_runtime_parameters_def Let_def map_of_filter_key)
next
  case False
  then show ?thesis
    by (simp add: json_runtime_parameters_def Let_def map_of_filter_key update_conv')
qed

lemma json_data_connector_query_dict:
  assumes "dict_get q ''custom_filter_function'' = PNone
         \<or> (\<exists>n. dict_get q ''custom_filter_function'' = PFunc n)"
  shows "\<exists>q2. json_data_connector_query (PDict c q) = Inr (PDict c q2)
     \<and> (dict_get q ''custom_filter_function'' = PNone \<longrightarrow> q2 = q)
     \<and> (\<forall>n. dict_get q ''custom_filter_function'' = PFunc n \<longrightarrow>
            map_of q2 ''custom_filter_function'' = Some (PStr n))
     \<and> (\<forall>k. k \<noteq> ''custom_filter_function'' \<longrightarrow> map_of q2 k = map_of q k)"
  using assms
proof
  assume "dict_get q ''custom_filter_function'' = PNone"
  then show ?thesis by (simp add: json_data_connector_query_def)
next
  assume "\<exists>n. dict_get q ''custom_filter_function'' = PFunc n"
  then obtain n where "dict_get q ''custom_filter_function'' = PFunc n" ..
  then show ?thesis by (simp add: json_data_connector_query_def update_conv')
qed

lemma filtered_lookup:
  "distinct (map fst xs) \<Longrightarrow>
     map_of (filter_properties_dict xs) k =
       (case map_of xs k of None \<Rightarrow> None | Some v \<Rightarrow> if truthy v then Some v else None)"
  unfolding filter_properties_dict_def
proof (induction xs)
  case Nil
  then show ?case by simp
next
  case (Cons x xs)
  obtain a b where x: "x = (a, b)" by (cases x)
  from Cons.prems x have a: "a \<notin> fst ` set xs" and d: "distinct (map fst xs)" by auto
  from a have n: "map_of xs a = None" by (simp add: map_of_eq_None_iff)
  show ?case using Cons.IH[OF d] x n by (auto split: option.splits)
qed

lemma filtered_truthy: "(k, v) \<in> set (filter_properties_dict xs) \<Longrightarrow> truthy v"
  by (auto simp: filter_properties_dict_def)

lemma filtered_keys: "fst ` set (filter_properties_dict xs) \<subseteq> fst ` set xs"
  by (auto simp: filter_properties_dict_def)

lemma filtered_distinct: "distinct (map fst xs) \<Longrightarrow> distinct (map fst (filter_properties_dict xs))"
  by (simp add: filter_properties_dict_def distinct_map_filter)


lemma request_entries_lookup:
  fixes dn dcn dan q' bsp l bi p'
  defines "L \<equiv> [(''datasource_name'', dn), (''data_connector_name'', dcn),
      (''data_asset_name'', dan), (''data_connector_query'', q')]
     @ optional_entry ''batch_spec_passthrough'' bsp
     @ optional_entry ''limit'' l
     @ optional_entry ''batch_identifiers'' bi
     @ optional_entry ''runtime_parameters'' p'"
  shows "distinct (map fst L)"
    and "fst ` set L \<subseteq> {''datasource_name'', ''data_connector_name'', ''data_asset_name'',
          ''data_connector_query'', ''batch_spec_passthrough'', ''limit'',
          ''batch_identifiers'', ''runtime_parameters''}"
    and "map_of L ''datasource_name'' = Some dn"
    and "map_of L ''data_connector_name'' = Some dcn"
    and "map_of L ''data_asset_name'' = Some dan"
    and "map_of L ''data_connector_query'' = Some q'"
    and "map_of L ''batch_spec_passthrough'' = (if bsp \<noteq> PNone then Some bsp else None)"
    and "map_of L ''limit'' = (if l \<noteq> PNone then Some l else None)"
    and "map_of L ''batch_identifiers'' = (if bi \<noteq> PNone then Some bi else None)"
    and "map_of L ''runtime_parameters'' = (if p' \<noteq> PNone then Some p' else None)"
  unfolding L_def by (auto simp: optional_entry_def)


text \<open>
  C5: for a request whose \<^verbatim>\<open>data_connector_query\<close> is None or a mapping (with a
  function, or nothing, as \<^verbatim>\<open>custom_filter_function\<close>) and whose
  \<^verbatim>\<open>runtime_parameters\<close> is None or a mapping, \<^verbatim>\<open>to_json_dict\<close> returns a dict \<open>j\<close>
  with distinct keys among the eight field names, in which no value is falsy.  A name,
  the passthrough, the limit and the batch identifiers are there exactly when truthy
  (so only when not None), with their value.  The query \<open>q'\<close> stored is the query with
  the filter function replaced by its name and every other entry as it is; the runtime
  parameters \<open>p'\<close> stored are a plain dict in which \<^verbatim>\<open>batch_data\<close>, when not None,
  is the string of its type, and every other entry is as it is.
\<close>

theorem BatchRequestBase_to_json_dict_content:
  assumes dq: "br_data_connector_query self = PNone
        \<or> (\<exists>c q. br_data_connector_query self = PDict c q
              \<and> (dict_get q ''custom_filter_function'' = PNone
                   \<or> (\<exists>n. dict_get q ''custom_filter_function'' = PFunc n)))"
    and rp: "br_runtime_parameters self = PNone
        \<or> (\<exists>c p. br_runtime_parameters self = PDict c p)"
  shows "\<exists>j q' p'. BatchRequestBase_to_json_dict self = Inr j
     \<and> (\<forall>k v. (k, v) \<in> set j \<longrightarrow> truthy v)
     \<and> distinct (map fst j)
     \<and> fst ` set j \<subseteq> {''datasource_name'', ''data_connector_name'', ''data_asset_name'',
          ''data_connector_query'', ''batch_spec_passthrough'', ''limit'',
          ''batch_identifiers'', ''runtime_parameters''}
     \<and> map_of j ''datasource_name'' =
          (if truthy (br_datasource_name self) then Some (br_datasource_name self) else None)
     \<and> map_of j ''data_connector_name'' =
          (if truthy (br_data_connector_name self) then Some (br_data_connector_name self)
           else None)
     \<and> map_of j ''data_asset_name'' =
          (if truthy (br_data_asset_name self) then Some (br_data_asset_name self) else None)
     \<and> map_of j ''data_connector_query'' = (if truthy q' then Some q' else None)
     \<and> map_of j ''batch_spec_passthrough'' =
          (if truthy (br_batch_spec_passthrough self)
           then Some (br_batch_spec_passthrough self) else None)
     \<and> map_of j ''limit'' = (if truthy (br_limit self) then Some (br_limit self) else None)
     \<and> map_of j ''batch_identifiers'' =
          (if truthy (br_batch_identifiers self) then Some (br_batch_identifiers self)
           else None)
     \<and> map_of j ''runtime_parameters'' = (if truthy p' then Some p' else None)
     \<and> (br_data_connector_query self = PNone \<longrightarrow> q' = PNone)
     \<and> (\<forall>c q. br_data_connector_query self = PDict c q \<longrightarrow>
           (\<exists>q2. q' = PDict c q2
              \<and> (dict_get q ''custom_filter_function'' = PNone \<longrightarrow> q2 = q)
              \<and> (\<forall>n. dict_get q ''custom_filter_function'' = PFunc n \<longrightarrow>
                     map_of q2 ''custom_filter_function'' = Some (PStr n))
              \<and> (\<forall>k. k \<noteq> ''custom_filter_function'' \<longrightarrow> map_of q2 k = map_of q k)))
     \<and> (br_runtime_parameters self = PNone \<longrightarrow> p' = PNone)
     \<and> (\<forall>c p. br_runtime_parameters self = PDict c p \<longrightarrow>
           (\<exists>p2. p' = PDict Dict p2
              \<and> map_of p2 ''batch_data'' =
                  (if dict_get p ''batch_data'' = PNone then None
                   else Some (PStr (str_type (dict_get p ''batch_data''))))
              \<and> (\<forall>k. k \<noteq> ''batch_data'' \<longrightarrow> map_of p2 k = map_of p k)))"
proof -
  \<comment> \<open>the query block\<close>
  have "\<exists>q'. json_data_connector_query (br_data_connector_query self) = Inr q'
     \<and> (br_data_connector_query self = PNone \<longrightarrow> q' = PNone)
     \<and> (\<forall>c q. br_data_connector_query self = PDict c q \<longrightarrow>
           (\<exists>q2. q' = PDict c q2
              \<and> (dict_get q ''custom_filter_function'' = PNone \<longrightarrow> q2 = q)
              \<and> (\<forall>n. dict_get q ''custom_filter_function'' = PFunc n \<longrightarrow>
                     map_of q2 ''custom_filter_function'' = Some (PStr n))
              \<and> (\<forall>k. k \<noteq> ''custom_filter_function'' \<longrightarrow> map_of q2 k = map_of q k)))"
    using dq
  proof
    assume "br_data_connector_query self = PNone"
    then show ?thesis by (simp add: json_data_connector_query_def)
  next
    assume "\<exists>c q. br_data_connector_query self = PDict c q
              \<and> (dict_get q ''custom_filter_function'' = PNone
                   \<or> (\<exists>n. dict_get q ''custom_filter_function'' = PFunc n))"
    then obtain c q where cq: "br_data_connector_query self = PDict c q"
      and f: "dict_get q ''custom_filter_function'' = PNone
                   \<or> (\<exists>n. dict_get q ''custom_filter_function'' = PFunc n)" by blast
    from json_data_connector_query_dict[OF f, of c] obtain q2 where
      a: "json_data_connector_query (PDict c q) = Inr (PDict c q2)"
      and b: "dict_get q ''custom_filter_function'' = PNone \<longrightarrow> q2 = q"
        "\<forall>n. dict_get q ''custom_filter_function'' = PFunc n \<longrightarrow>
            map_of q2 ''custom_filter_function'' = Some (PStr n)"
        "\<forall>k. k \<noteq> ''custom_filter_function'' \<longrightarrow> map_of q2 k = map_of q k"
      by blast
    show ?thesis
    proof (intro exI[of _ "PDict c q2"] conjI allI impI)
      show "json_data_connector_query (br_data_connector_query self) = Inr (PDict c q2)"
        using a cq by simp
      show "PDict c q2 = PNone" if "br_data_connector_query self = PNone"
        using that cq by simp
      show "\<exists>q2'. PDict c q2 = PDict c' q2'
              \<and> (dict_get q0 ''custom_filter_function'' = PNone \<longrightarrow> q2' = q0)
              \<and> (\<forall>n. dict_get q0 ''custom_filter_function'' = PFunc n \<longrightarrow>
                     map_of q2' ''custom_filter_function'' = Some (PStr n))
              \<and> (\<forall>k. k \<noteq> ''custom_filter_function'' \<longrightarrow> map_of q2' k = map_of q0 k)"
        if "br_data_connector_query self = PDict c' q0" for c' q0
      proof -
        from that cq have "c' = c" "q0 = q" by simp_all
        with b show ?thesis by (intro exI[of _ q2]) simp
      qed
    qed
  qed
  then obtain q' where qq: "json_data_connector_query (br_data_connector_query self) = Inr q'
     \<and> (br_data_connector_query self = PNone \<longrightarrow> q' = PNone)
     \<and> (\<forall>c q. br_data_connector_query self = PDict c q \<longrightarrow>
           (\<exists>q2. q' = PDict c q2
              \<and> (dict_get q ''custom_filter_function'' = PNone \<longrightarrow> q2 = q)
              \<and> (\<forall>n. dict_get q ''custom_filter_function'' = PFunc n \<longrightarrow>
                     map_of q2 ''custom_filter_function'' = Some (PStr n))
              \<and> (\<forall>k. k \<noteq> ''custom_filter_function'' \<longrightarrow> map_of q2 k = map_of q k)))" ..
  note q1 = qq[THEN conjunct1] and q2 = qq[THEN conjunct2, THEN conjunct1]
    and q3 = qq[THEN conjunct2, THEN conjunct2]
  \<comment> \<open>the runtime block\<close>
  have "\<exists>p'. (if br_runtime_parameters self = PNone then Inr PNone
          else json_runtime_parameters (br_runtime_parameters self)) = Inr p'
     \<and> (br_runtime_parameters self = PNone \<longrightarrow> p' = PNone)
     \<and> (\<forall>c p. br_runtime_parameters self = PDict c p \<longrightarrow>
           (\<exists>p2. p' = PDict Dict p2
              \<and> map_of p2 ''batch_data'' =
                  (if dict_get p ''batch_data'' = PNone then None
                   else Some (PStr (str_type (dict_get p ''batch_data''))))
              \<and> (\<forall>k. k \<noteq> ''batch_data'' \<longrightarrow> map_of p2 k = map_of p k)))"
    using rp
  proof
    assume "br_runtime_parameters self = PNone"
    then show ?thesis by simp
  next
    assume "\<exists>c p. br_runtime_parameters self = PDict c p"
    then obtain c p where cp: "br_runtime_parameters self = PDict c p" by blast
    from json_runtime_parameters_dict[of c p] obtain p2 where
      a: "json_runtime_parameters (PDict c p) = Inr (PDict Dict p2)"
      and b: "map_of p2 ''batch_data'' =
                  (if dict_get p ''batch_data'' = PNone then None
                   else Some (PStr (str_type (dict_get p ''batch_data''))))"
        "\<forall>k. k \<noteq> ''batch_data'' \<longrightarrow> map_of p2 k = map_of p k"
      by blast
    show ?thesis
    proof (intro exI[of _ "PDict Dict p2"] conjI allI impI)
      show "(if br_runtime_parameters self = PNone then Inr PNone
          else json_runtime_parameters (br_runtime_parameters self)) = Inr (PDict Dict p2)"
        using a cp by simp
      show "PDict Dict p2 = PNone" if "br_runtime_parameters self = PNone"
        using that cp by simp
      show "\<exists>p2'. PDict Dict p2 = PDict Dict p2'
              \<and> map_of p2' ''batch_data'' =
                  (if dict_get p0 ''batch_data'' = PNone then None
                   else Some (PStr (str_type (dict_get p0 ''batch_data''))))
              \<and> (\<forall>k. k \<noteq> ''batch_data'' \<longrightarrow> map_of p2' k = map_of p0 k)"
        if "br_runtime_parameters self = PDict c' p0" for c' p0
      proof -
        from that cp have "p0 = p" by simp
        with b show ?thesis by (intro exI[of _ p2]) simp
      qed
    qed
  qed
  then obtain p' where pp: "(if br_runtime_parameters self = PNone then Inr PNone
          else json_runtime_parameters (br_runtime_parameters self)) = Inr p'
     \<and> (br_runtime_parameters self = PNone \<longrightarrow> p' = PNone)
     \<and> (\<forall>c p. br_runtime_parameters self = PDict c p \<longrightarrow>
           (\<exists>p2. p' = PDict Dict p2
              \<and> map_of p2 ''batch_data'' =
                  (if dict_get p ''batch_data'' = PNone then None
                   else Some (PStr (str_type (dict_get p ''batch_data''))))
              \<and> (\<forall>k. k \<noteq> ''batch_data'' \<longrightarrow> map_of p2 k = map_of p k)))" ..
  note p1 = pp[THEN conjunct1] and p2 = pp[THEN conjunct2, THEN conjunct1]
    and p3 = pp[THEN conjunct2, THEN conjunct2]
  \<comment> \<open>the dict that is filtered\<close>
  define L where "L = [(''datasource_name'', br_datasource_name self),
      (''data_connector_name'', br_data_connector_name self),
      (''data_asset_name'', br_data_asset_name self),
      (''data_connector_query'', q')]
     @ optional_entry ''batch_spec_passthrough'' (br_batch_spec_passthrough self)
     @ optional_entry ''limit'' (br_limit self)
     @ optional_entry ''batch_identifiers'' (br_batch_identifiers self)
     @ optional_entry ''runtime_parameters'' p'"
  define j where "j = filter_properties_dict L"
  have j: "BatchRequestBase_to_json_dict self = Inr j"
    unfolding j_def L_def by (rule to_json_dict_entries[OF q1 p1])
  have dL: "distinct (map fst L)"
    unfolding L_def by (rule request_entries_lookup)
  have look: "\<And>k. map_of j k =
       (case map_of L k of None \<Rightarrow> None | Some v \<Rightarrow> if truthy v then Some v else None)"
    unfolding j_def by (rule filtered_lookup[OF dL])
  have c1: "\<forall>k v. (k, v) \<in> set j \<longrightarrow> truthy v"
    unfolding j_def using filtered_truthy by blast
  have c2: "distinct (map fst j)"
    unfolding j_def by (rule filtered_distinct[OF dL])
  have "fst ` set L \<subseteq> {''datasource_name'', ''data_connector_name'', ''data_asset_name'',
          ''data_connector_query'', ''batch_spec_passthrough'', ''limit'',
          ''batch_identifiers'', ''runtime_parameters''}"
    unfolding L_def by (rule request_entries_lookup)
  then have c3: "fst ` set j \<subseteq> {''datasource_name'', ''data_connector_name'',
          ''data_asset_name'', ''data_connector_query'', ''batch_spec_passthrough'',
          ''limit'', ''batch_identifiers'', ''runtime_parameters''}"
    unfolding j_def using filtered_keys by blast
  have c4: "map_of j ''datasource_name'' =
          (if truthy (br_datasource_name self) then Some (br_datasource_name self) else None)"
    unfolding look L_def by (simp only: request_entries_lookup option.case)
  have c5: "map_of j ''data_connector_name'' =
          (if truthy (br_data_connector_name self) then Some (br_data_connector_name self)
           else None)"
    unfolding look L_def by (simp only: request_entries_lookup option.case)
  have c6: "map_of j ''data_asset_name'' =
          (if truthy (br_data_asset_name self) then Some (br_data_asset_name self) else None)"
    unfolding look L_def by (simp only: request_entries_lookup option.case)
  have c7: "map_of j ''data_connector_query'' = (if truthy q' then Some q' else None)"
    unfolding look L_def by (simp only: request_entries_lookup option.case)
  have c8: "map_of j ''batch_spec_passthrough'' =
          (if truthy (br_batch_spec_passthrough self)
           then Some (br_batch_spec_passthrough self) else None)"
    unfolding look L_def by (simp only: request_entries_lookup) (auto dest: truthy_not_None)
  have c9: "map_of j ''limit'' = (if truthy (br_limit self) then Some (br_limit self) else None)"
    unfolding look L_def by (simp only: request_entries_lookup) (auto dest: truthy_not_None)
  have c10: "map_of j ''batch_identifiers'' =
          (if truthy (br_batch_identifiers self) then Some (br_batch_identifiers self)
           else None)"
    unfolding look L_def by (simp only: request_entries_lookup) (auto dest: truthy_not_None)
  have c11: "map_of j ''runtime_parameters'' = (if truthy p' then Some p' else None)"
    unfolding look L_def by (simp only: request_entries_lookup) (auto dest: truthy_not_None)
  show ?thesis
    by (rule exI[of _ j], rule exI[of _ q'], rule exI[of _ p'])
       (intro conjI j c1 c2 c3 c4 c5 c6 c7 c8 c9 c10 c11 q2 q3 p2 p3)
qed


theorem BatchRequestBase_to_json_dict_content_witness:
  "(\<exists>j. BatchRequestBase_to_json_dict
          \<lparr> br_class = RuntimeBatchRequest, br_datasource_name = PStr ''s'',
            br_data_connector_name = PStr ''c'', br_data_asset_name = PStr ''a'',
            br_data_connector_query = PNone, br_limit = PNone,
            br_runtime_parameters =
              PDict Dict [(''batch_data'', PObj ''pandas.core.frame.DataFrame'' 0),
                          (''x'', PInt 1)],
            br_batch_identifiers = PDict Dict [(''k'', PStr ''v'')],
            br_batch_spec_passthrough = PNone \<rparr> = Inr j
        \<and> map_of j ''datasource_name'' = Some (PStr ''s''))
   \<and> (\<exists>j. BatchRequestBase_to_json_dict
          \<lparr> br_class = BatchRequest, br_datasource_name = PStr ''s'',
            br_data_connector_name = PStr ''c'', br_data_asset_name = PStr ''a'',
            br_data_connector_query =
              PDict IDDict [(''batch_filter_parameters'', PDict Dict []),
                            (''limit'', PInt 3), (''index'', PNone),
                            (''custom_filter_function'', PFunc ''my_filter'')],
            br_limit = PNone, br_runtime_parameters = PNone,
            br_batch_identifiers = PNone,
            br_batch_spec_passthrough = PDict Dict [] \<rparr> = Inr j
        \<and> map_of j ''batch_spec_passthrough'' = None)"
proof (rule conjI)
  let ?r = "\<lparr> br_class = RuntimeBatchRequest, br_datasource_name = PStr ''s'',
            br_data_connector_name = PStr ''c'', br_data_asset_name = PStr ''a'',
            br_data_connector_query = PNone, br_limit = PNone,
            br_runtime_parameters =
              PDict Dict [(''batch_data'', PObj ''pandas.core.frame.DataFrame'' 0),
                          (''x'', PInt 1)],
            br_batch_identifiers = PDict Dict [(''k'', PStr ''v'')],
            br_batch_spec_passthrough = PNone \<rparr>"
  have 1: "br_data_connector_query ?r = PNone
        \<or> (\<exists>c q. br_data_connector_query ?r = PDict c q
              \<and> (dict_get q ''custom_filter_function'' = PNone
                   \<or> (\<exists>n. dict_get q ''custom_filter_function'' = PFunc n)))" by simp
  have 2: "br_runtime_parameters ?r = PNone
        \<or> (\<exists>c p. br_runtime_parameters ?r = PDict c p)" by simp
  from BatchRequestBase_to_json_dict_content[OF 1 2] obtain j and q' p' :: pyval where
    a: "BatchRequestBase_to_json_dict ?r = Inr j"
    and b: "map_of j ''datasource_name'' =
          (if truthy (br_datasource_name ?r) then Some (br_datasource_name ?r) else None)"
    by (elim exE conjE)
  from b have "map_of j ''datasource_name'' = Some (PStr ''s'')" by simp
  with a show "\<exists>j. BatchRequestBase_to_json_dict ?r = Inr j
        \<and> map_of j ''datasource_name'' = Some (PStr ''s'')" by (intro exI[of _ j] conjI)
next
  let ?r = "\<lparr> br_class = BatchRequest, br_datasource_name = PStr ''s'',
            br_data_connector_name = PStr ''c'', br_data_asset_name = PStr ''a'',
            br_data_connector_query =
              PDict IDDict [(''batch_filter_parameters'', PDict Dict []),
                            (''limit'', PInt 3), (''index'', PNone),
                            (''custom_filter_function'', PFunc ''my_filter'')],
            br_limit = PNone, br_runtime_parameters = PNone,
            br_batch_identifiers = PNone,
            br_batch_spec_passthrough = PDict Dict [] \<rparr>"
  have "dict_get [(''batch_filter_parameters'', PDict Dict []),
                            (''limit'', PInt 3), (''index'', PNone),
                            (''custom_filter_function'', PFunc ''my_filter'')]
           ''custom_filter_function'' = PFunc ''my_filter''"
    by (simp add: dict_get_def)
  then have 1: "br_data_connector_query ?r = PNone
        \<or> (\<exists>c q. br_data_connector_query ?r = PDict c q
              \<and> (dict_get q ''custom_filter_function'' = PNone
                   \<or> (\<exists>n. dict_get q ''custom_filter_function'' = PFunc n)))" by simp
  have 2: "br_runtime_parameters ?r = PNone
        \<or> (\<exists>c p. br_runtime_parameters ?r = PDict c p)" by simp
  from BatchRequestBase_to_json_dict_content[OF 1 2] obtain j and q' p' :: pyval where
    a: "BatchRequestBase_to_json_dict ?r = Inr j"
    and b: "map_of j ''batch_spec_passthrough'' =
          (if truthy (br_batch_spec_passthrough ?r)
           then Some (br_batch_spec_passthrough ?r) else None)"
    by (elim exE conjE)
  from b have "map_of j ''batch_spec_passthrough'' = None" by simp
  with a show "\<exists>j. BatchRequestBase_to_json_dict ?r = Inr j
        \<and> map_of j ''batch_spec_passthrough'' = None" by (intro exI[of _ j] conjI)
qed

subsection \<open>The reconciliation of the arguments\<close>

lemma get_batch_request_guards_passed:
  assumes "resolve_datasource_name a = Inr dn" and "isinstance_str dn"
    and "\<not> 1 < provided_count a" and "key_collision a = Inr False"
  shows "get_batch_request_from_acceptable_arguments a =
     (case arg_batch_request a of
        ARequest batch_request \<Rightarrow> (Inr batch_request, no_effects a)
      | NotARequest v \<Rightarrow>
          if runtime_trigger a then runtime_branch a dn else catalog_branch a dn)"
  using assms by (simp add: get_batch_request_from_acceptable_arguments_def)

lemma get_batch_request_resolve_error:
  "resolve_datasource_name a = Inl e \<Longrightarrow>
     get_batch_request_from_acceptable_arguments a = (Inl e, no_effects a)"
  by (simp add: get_batch_request_from_acceptable_arguments_def)

lemma get_batch_request_not_str:
  "resolve_datasource_name a = Inr dn \<Longrightarrow> \<not> isinstance_str dn \<Longrightarrow>
     get_batch_request_from_acceptable_arguments a =
       (Inl (GreatExpectationsTypeError
          (''the first parameter, datasource_name, must be a str, not '' @ str_type dn)),
        no_effects a)"
  by (simp add: get_batch_request_from_acceptable_arguments_def)

lemma provided_count_pairs:
  "1 < provided_count a \<longleftrightarrow>
     (arg_batch_data a \<noteq> PNone \<and> arg_query a \<noteq> PNone)
   \<or> (arg_batch_data a \<noteq> PNone \<and> arg_path a \<noteq> PNone)
   \<or> (arg_query a \<noteq> PNone \<and> arg_path a \<noteq> PNone)"
  by (auto simp: provided_count_def)

text \<open>
  C1, as the code has it: when the datasource name (that of \<^verbatim>\<open>batch_request\<close> if one
  is supplied, which must then be a \<^verbatim>\<open>BatchRequest\<close>) is a str, every call in which
  two of \<^verbatim>\<open>batch_data\<close>, \<^verbatim>\<open>query\<close>, \<^verbatim>\<open>path\<close> are not None, whichever pair,
  raises the ValueError "Must provide only one of batch_data, query, or path." and
  changes nothing.
\<close>

theorem only_one_of_batch_data_query_path:
  assumes "resolve_datasource_name a = Inr dn" and "isinstance_str dn"
    and "(arg_batch_data a \<noteq> PNone \<and> arg_query a \<noteq> PNone)
       \<or> (arg_batch_data a \<noteq> PNone \<and> arg_path a \<noteq> PNone)
       \<or> (arg_query a \<noteq> PNone \<and> arg_path a \<noteq> PNone)"
  shows "get_batch_request_from_acceptable_arguments a =
     (Inl (ValueError ''Must provide only one of batch_data, query, or path.''),
      no_effects a)"
proof -
  from assms(3) have "1 < provided_count a" by (simp only: provided_count_pairs)
  with assms(1,2) show ?thesis
    by (simp add: get_batch_request_from_acceptable_arguments_def)
qed

text \<open>
  With the default datasource name, None, a call with a query and a path raises the
  type error of the datasource name check, which comes first.
\<close>

theorem only_one_of_batch_data_query_path_counterexample:
  "arg_query (no_arguments\<lparr> arg_query := PStr ''SELECT 1'', arg_path := PStr ''/x'' \<rparr>) \<noteq> PNone
   \<and> arg_path (no_arguments\<lparr> arg_query := PStr ''SELECT 1'', arg_path := PStr ''/x'' \<rparr>) \<noteq> PNone
   \<and> fst (get_batch_request_from_acceptable_arguments
        (no_arguments\<lparr> arg_query := PStr ''SELECT 1'', arg_path := PStr ''/x'' \<rparr>))
     = Inl (GreatExpectationsTypeError
          (''the first parameter, datasource_name, must be a str, not '' @ str_type PNone))"
  by (simp add: get_batch_request_from_acceptable_arguments_def resolve_datasource_name_def
        no_arguments_def)

theorem only_one_of_batch_data_query_path_witness:
  "get_batch_request_from_acceptable_arguments
     (no_arguments\<lparr> arg_datasource_name := PStr ''s1'', arg_data_connector_name := PStr ''c1'',
        arg_data_asset_name := PStr ''a1'', arg_query := PStr ''SELECT 1'',
        arg_path := PStr ''/x'' \<rparr>)
   = (Inl (ValueError ''Must provide only one of batch_data, query, or path.''),
      no_effects (no_arguments\<lparr> arg_datasource_name := PStr ''s1'',
        arg_data_connector_name := PStr ''c1'',
        arg_data_asset_name := PStr ''a1'', arg_query := PStr ''SELECT 1'',
        arg_path := PStr ''/x'' \<rparr>))"
  by (rule only_one_of_batch_data_query_path[where dn = "PStr ''s1''"])
     (simp_all add: resolve_datasource_name_def no_arguments_def)


text \<open>
  C2, as the code has it: a truthy \<^verbatim>\<open>batch_request\<close> that is not a
  \<^verbatim>\<open>BatchRequest\<close> raises a TypeError; a \<^verbatim>\<open>BatchRequest\<close> whose datasource name is
  a str is returned as it is, with nothing changed, when at most one of
  \<^verbatim>\<open>batch_data\<close>, \<^verbatim>\<open>query\<close>, \<^verbatim>\<open>path\<close> is given and none of them is also a key
  of \<^verbatim>\<open>runtime_parameters\<close>; the other arguments play no part.
\<close>

theorem batch_request_returned_unchanged:
  "(arg_batch_request a = NotARequest v \<and> truthy v \<longrightarrow>
      (\<exists>m. fst (get_batch_request_from_acceptable_arguments a) = Inl (TypeError m)))
   \<and> (arg_batch_request a = ARequest r \<and> \<not> isinstance_BatchRequest r \<longrightarrow>
      (\<exists>m. fst (get_batch_request_from_acceptable_arguments a) = Inl (TypeError m)))
   \<and> (arg_batch_request a = ARequest r \<and> isinstance_BatchRequest r
        \<and> isinstance_str (br_datasource_name r)
        \<and> \<not> 1 < provided_count a \<and> key_collision a = Inr False \<longrightarrow>
      get_batch_request_from_acceptable_arguments a = (Inr r, no_effects a))"
proof (intro conjI impI)
  assume "arg_batch_request a = NotARequest v \<and> truthy v"
  then have "\<exists>m. resolve_datasource_name a = Inl (TypeError m)"
    by (simp add: resolve_datasource_name_def)
  then obtain m where "resolve_datasource_name a = Inl (TypeError m)" ..
  then show "\<exists>m. fst (get_batch_request_from_acceptable_arguments a) = Inl (TypeError m)"
    by (simp add: get_batch_request_resolve_error)
next
  assume "arg_batch_request a = ARequest r \<and> \<not> isinstance_BatchRequest r"
  then have "\<exists>m. resolve_datasource_name a = Inl (TypeError m)"
    by (simp add: resolve_datasource_name_def)
  then obtain m where "resolve_datasource_name a = Inl (TypeError m)" ..
  then show "\<exists>m. fst (get_batch_request_from_acceptable_arguments a) = Inl (TypeError m)"
    by (simp add: get_batch_request_resolve_error)
next
  assume h: "arg_batch_request a = ARequest r \<and> isinstance_BatchRequest r
        \<and> isinstance_str (br_datasource_name r)
        \<and> \<not> 1 < provided_count a \<and> key_collision a = Inr False"
  then have "resolve_datasource_name a = Inr (br_datasource_name r)"
    by (simp add: resolve_datasource_name_def)
  from get_batch_request_guards_passed[OF this] h
  show "get_batch_request_from_acceptable_arguments a = (Inr r, no_effects a)"
    by simp
qed

theorem batch_request_returned_unchanged_witness:
  "get_batch_request_from_acceptable_arguments
      (no_arguments\<lparr> arg_batch_request := ARequest example_request,
         arg_limit := PInt 3 \<rparr>)
     = (Inr example_request,
        no_effects (no_arguments\<lparr> arg_batch_request := ARequest example_request,
         arg_limit := PInt 3 \<rparr>))
   \<and> (\<exists>m. fst (get_batch_request_from_acceptable_arguments
         (no_arguments\<lparr> arg_batch_request := NotARequest (PStr ''my_datasource'') \<rparr>))
        = Inl (TypeError m))"
proof (rule conjI)
  show "get_batch_request_from_acceptable_arguments
      (no_arguments\<lparr> arg_batch_request := ARequest example_request,
         arg_limit := PInt 3 \<rparr>)
     = (Inr example_request,
        no_effects (no_arguments\<lparr> arg_batch_request := ARequest example_request,
         arg_limit := PInt 3 \<rparr>))"
    by (rule batch_request_returned_unchanged
          [THEN conjunct2, THEN conjunct2, rule_format])
       (simp add: no_arguments_def example_request_def isinstance_BatchRequest_def
          provided_count_def key_collision_def given_and_in_def)
  show "\<exists>m. fst (get_batch_request_from_acceptable_arguments
         (no_arguments\<lparr> arg_batch_request := NotARequest (PStr ''my_datasource'') \<rparr>))
        = Inl (TypeError m)"
    by (rule batch_request_returned_unchanged
          [where v = "PStr ''my_datasource''", THEN conjunct1, rule_format])
       (simp add: no_arguments_def)
qed

text \<open>
  A request made by \<^verbatim>\<open>BatchRequest(...)\<close> is passed as \<^verbatim>\<open>batch_request\<close>
  together with a query and a path: the call raises, and does not return the request.
\<close>

theorem batch_request_returned_unchanged_counterexample:
  "BatchRequest_init BatchRequest (PStr ''s1'') (PStr ''c1'') (PStr ''a1'')
      (PDict IDDict []) PNone (PDict Dict []) = Inr example_request
   \<and> fst (get_batch_request_from_acceptable_arguments
      (no_arguments\<lparr> arg_batch_request := ARequest example_request,
         arg_query := PStr ''SELECT 1'', arg_path := PStr ''/x'' \<rparr>))
     = Inl (ValueError ''Must provide only one of batch_data, query, or path.'')"
  by (simp add: get_batch_request_from_acceptable_arguments_def resolve_datasource_name_def
        no_arguments_def example_request_def isinstance_BatchRequest_def provided_count_def
        BatchRequest_init_def BatchRequest_validate_init_parameters_def
        BatchRequestBase_init_def)


lemma key_collision_no_trigger: "\<not> runtime_trigger a \<Longrightarrow> key_collision a = Inr False"
  by (simp add: runtime_trigger_def key_collision_def given_and_in_def)

lemma catalog_branch_alias:
  assumes "arg_batch_filter_parameters a = PNone" and "arg_batch_identifiers a \<noteq> PNone"
  shows "fst (catalog_branch
            (a\<lparr> arg_batch_identifiers := PNone,
                arg_batch_filter_parameters := arg_batch_identifiers a \<rparr>) dn)
       = fst (catalog_branch a dn)"
  using assms
  by (cases "arg_data_connector_query a = PNone")
     (simp_all add: catalog_branch_def resolve_batch_spec_passthrough_def Let_def
        split: sum.splits)

lemma catalog_branch_deprecation:
  assumes "arg_batch_filter_parameters a = PNone" and "arg_batch_identifiers a \<noteq> PNone"
    and "arg_data_connector_query a = PNone"
  shows "catalog_branch a dn =
     (BatchRequest_init BatchRequest dn (arg_data_connector_name a) (arg_data_asset_name a)
        (PDict IDDict [(''batch_filter_parameters'', arg_batch_identifiers a),
                       (''limit'', arg_limit a), (''index'', arg_index a),
                       (''custom_filter_function'', arg_custom_filter_function a)])
        PNone (resolve_batch_spec_passthrough a),
      \<lparr> caller_runtime_parameters = arg_runtime_parameters a,
        warnings = [batch_identifiers_deprecation] \<rparr>)"
  using assms by (simp add: catalog_branch_def)

lemma get_batch_request_alias:
  assumes "arg_batch_filter_parameters a = PNone" and "arg_batch_identifiers a \<noteq> PNone"
    and "\<not> runtime_trigger a"
  shows "fst (get_batch_request_from_acceptable_arguments
               (a\<lparr> arg_batch_identifiers := PNone,
                   arg_batch_filter_parameters := arg_batch_identifiers a \<rparr>))
       = fst (get_batch_request_from_acceptable_arguments a)"
proof -
  let ?a' = "a\<lparr> arg_batch_identifiers := PNone,
                 arg_batch_filter_parameters := arg_batch_identifiers a \<rparr>"
  have r: "resolve_datasource_name ?a' = resolve_datasource_name a"
    by (simp add: resolve_datasource_name_def split: request_arg.splits)
  have c: "provided_count ?a' = provided_count a" by (simp add: provided_count_def)
  have t: "\<not> runtime_trigger ?a'" using assms(3) by (simp add: runtime_trigger_def)
  have k: "key_collision ?a' = Inr False" "key_collision a = Inr False"
    by (rule key_collision_no_trigger[OF t], rule key_collision_no_trigger[OF assms(3)])
  have b: "arg_batch_request ?a' = arg_batch_request a" by simp
  show ?thesis
  proof (cases "resolve_datasource_name a")
    case (Inl e)
    then show ?thesis using r by (simp add: get_batch_request_resolve_error)
  next
    case (Inr dn)
    show ?thesis
    proof (cases "isinstance_str dn \<and> \<not> 1 < provided_count a")
      case False
      then show ?thesis using Inr r c
        by (auto simp add: get_batch_request_from_acceptable_arguments_def)
    next
      case True
      have 1: "get_batch_request_from_acceptable_arguments a =
         (case arg_batch_request a of
            ARequest batch_request \<Rightarrow> (Inr batch_request, no_effects a)
          | NotARequest v \<Rightarrow> catalog_branch a dn)"
        using get_batch_request_guards_passed[OF Inr _ _ k(2)] True assms(3) by simp
      have 2: "get_batch_request_from_acceptable_arguments ?a' =
         (case arg_batch_request a of
            ARequest batch_request \<Rightarrow> (Inr batch_request, no_effects ?a')
          | NotARequest v \<Rightarrow> catalog_branch ?a' dn)"
        using get_batch_request_guards_passed[of ?a' dn, OF _ _ _ k(1)] True t Inr r c b
        by simp
      show ?thesis unfolding 1 2
        using catalog_branch_alias[OF assms(1,2)] by (simp split: request_arg.splits)
    qed
  qed
qed


text \<open>
  C3: in a call that does not take the runtime branch, passing the identifiers as
  \<^verbatim>\<open>batch_identifiers\<close> (the deprecated alias, with no
  \<^verbatim>\<open>batch_filter_parameters\<close>) or as \<^verbatim>\<open>batch_filter_parameters\<close> gives the same
  result: the same exception, or requests with the same \<^verbatim>\<open>to_json_dict()\<close> and the
  same id.  Where the alias is used to build the query, with valid names, the call
  returns a \<^verbatim>\<open>BatchRequest\<close> and logs the deprecation warning.
\<close>

theorem deprecated_alias_equivalent:
  assumes "arg_batch_filter_parameters a = PNone" and "arg_batch_identifiers a \<noteq> PNone"
    and "\<not> runtime_trigger a"
  shows "fst (get_batch_request_from_acceptable_arguments
               (a\<lparr> arg_batch_identifiers := PNone,
                   arg_batch_filter_parameters := arg_batch_identifiers a \<rparr>))
       = fst (get_batch_request_from_acceptable_arguments a)
   \<and> (\<forall>r1 r2. fst (get_batch_request_from_acceptable_arguments a) = Inr r1
          \<and> fst (get_batch_request_from_acceptable_arguments
               (a\<lparr> arg_batch_identifiers := PNone,
                   arg_batch_filter_parameters := arg_batch_identifiers a \<rparr>)) = Inr r2
        \<longrightarrow> BatchRequestBase_to_json_dict r1 = BatchRequestBase_to_json_dict r2
          \<and> BatchRequestBase_id H r1 = BatchRequestBase_id H r2)
   \<and> (arg_batch_request a = NotARequest v \<and> \<not> truthy v
        \<and> truthy (arg_datasource_name a) \<and> isinstance_str (arg_datasource_name a)
        \<and> truthy (arg_data_connector_name a) \<and> isinstance_str (arg_data_connector_name a)
        \<and> truthy (arg_data_asset_name a) \<and> isinstance_str (arg_data_asset_name a)
        \<and> \<not> 1 < provided_count a \<and> arg_data_connector_query a = PNone
      \<longrightarrow> get_batch_request_from_acceptable_arguments a =
           (Inr (BatchRequestBase_init BatchRequest (arg_datasource_name a)
                   (arg_data_connector_name a) (arg_data_asset_name a)
                   (PDict IDDict [(''batch_filter_parameters'', arg_batch_identifiers a),
                                  (''limit'', arg_limit a), (''index'', arg_index a),
                                  (''custom_filter_function'', arg_custom_filter_function a)])
                   PNone PNone PNone (resolve_batch_spec_passthrough a)),
            \<lparr> caller_runtime_parameters = arg_runtime_parameters a,
              warnings = [batch_identifiers_deprecation] \<rparr>))"
proof (intro conjI allI impI)
  show e: "fst (get_batch_request_from_acceptable_arguments
               (a\<lparr> arg_batch_identifiers := PNone,
                   arg_batch_filter_parameters := arg_batch_identifiers a \<rparr>))
       = fst (get_batch_request_from_acceptable_arguments a)"
    by (rule get_batch_request_alias[OF assms])
  fix r1 r2
  assume "fst (get_batch_request_from_acceptable_arguments a) = Inr r1
          \<and> fst (get_batch_request_from_acceptable_arguments
               (a\<lparr> arg_batch_identifiers := PNone,
                   arg_batch_filter_parameters := arg_batch_identifiers a \<rparr>)) = Inr r2"
  with e have "r1 = r2" by simp
  then show "BatchRequestBase_to_json_dict r1 = BatchRequestBase_to_json_dict r2"
    "BatchRequestBase_id H r1 = BatchRequestBase_id H r2" by simp_all
next
  assume h: "arg_batch_request a = NotARequest v \<and> \<not> truthy v
        \<and> truthy (arg_datasource_name a) \<and> isinstance_str (arg_datasource_name a)
        \<and> truthy (arg_data_connector_name a) \<and> isinstance_str (arg_data_connector_name a)
        \<and> truthy (arg_data_asset_name a) \<and> isinstance_str (arg_data_asset_name a)
        \<and> \<not> 1 < provided_count a \<and> arg_data_connector_query a = PNone"
  then have r: "resolve_datasource_name a = Inr (arg_datasource_name a)"
    by (simp add: resolve_datasource_name_def)
  have g: "get_batch_request_from_acceptable_arguments a
         = catalog_branch a (arg_datasource_name a)"
    using get_batch_request_guards_passed[OF r _ _ key_collision_no_trigger[OF assms(3)]]
      h assms(3) by simp
  have v: "BatchRequest_validate_init_parameters (arg_datasource_name a)
        (arg_data_connector_name a) (arg_data_asset_name a)
        (PDict IDDict [(''batch_filter_parameters'', arg_batch_identifiers a),
                                  (''limit'', arg_limit a), (''index'', arg_index a),
                                  (''custom_filter_function'', arg_custom_filter_function a)])
        PNone = None"
    using h by (simp add: BatchRequest_validate_init_parameters_def)
  show "get_batch_request_from_acceptable_arguments a =
           (Inr (BatchRequestBase_init BatchRequest (arg_datasource_name a)
                   (arg_data_connector_name a) (arg_data_asset_name a)
                   (PDict IDDict [(''batch_filter_parameters'', arg_batch_identifiers a),
                                  (''limit'', arg_limit a), (''index'', arg_index a),
                                  (''custom_filter_function'', arg_custom_filter_function a)])
                   PNone PNone PNone (resolve_batch_spec_passthrough a)),
            \<lparr> caller_runtime_parameters = arg_runtime_parameters a,
              warnings = [batch_identifiers_deprecation] \<rparr>)"
    unfolding g using h assms(1,2) v
    by (simp add: catalog_branch_deprecation BatchRequest_init_def)
qed

theorem deprecated_alias_equivalent_witness:
  "fst (get_batch_request_from_acceptable_arguments
      (no_arguments\<lparr> arg_datasource_name := PStr ''s1'',
         arg_data_connector_name := PStr ''c1'', arg_data_asset_name := PStr ''a1'',
         arg_batch_filter_parameters := PDict Dict [(''a'', PInt 1)] \<rparr>))
   = Inr \<lparr> br_class = BatchRequest, br_datasource_name = PStr ''s1'',
           br_data_connector_name = PStr ''c1'', br_data_asset_name = PStr ''a1'',
           br_data_connector_query =
             PDict IDDict [(''batch_filter_parameters'', PDict Dict [(''a'', PInt 1)]),
                           (''limit'', PNone), (''index'', PNone),
                           (''custom_filter_function'', PNone)],
           br_limit = PNone, br_runtime_parameters = PNone, br_batch_identifiers = PNone,
           br_batch_spec_passthrough = PDict Dict [] \<rparr>
   \<and> warnings (snd (get_batch_request_from_acceptable_arguments
      (no_arguments\<lparr> arg_datasource_name := PStr ''s1'',
         arg_data_connector_name := PStr ''c1'', arg_data_asset_name := PStr ''a1'',
         arg_batch_identifiers := PDict Dict [(''a'', PInt 1)] \<rparr>)))
     = [batch_identifiers_deprecation]"
proof -
  let ?a = "no_arguments\<lparr> arg_datasource_name := PStr ''s1'',
         arg_data_connector_name := PStr ''c1'', arg_data_asset_name := PStr ''a1'',
         arg_batch_identifiers := PDict Dict [(''a'', PInt 1)] \<rparr>"
  have 1: "arg_batch_filter_parameters ?a = PNone" by (simp add: no_arguments_def)
  have 2: "arg_batch_identifiers ?a \<noteq> PNone" by simp
  have 3: "\<not> runtime_trigger ?a" by (simp add: runtime_trigger_def no_arguments_def)
  note t = deprecated_alias_equivalent[OF 1 2 3, where v = PNone and H = type_name]
  have h: "arg_batch_request ?a = NotARequest PNone \<and> \<not> truthy PNone
        \<and> truthy (arg_datasource_name ?a) \<and> isinstance_str (arg_datasource_name ?a)
        \<and> truthy (arg_data_connector_name ?a) \<and> isinstance_str (arg_data_connector_name ?a)
        \<and> truthy (arg_data_asset_name ?a) \<and> isinstance_str (arg_data_asset_name ?a)
        \<and> \<not> 1 < provided_count ?a \<and> arg_data_connector_query ?a = PNone"
    by (simp add: no_arguments_def provided_count_def)
  note g = t[THEN conjunct2, THEN conjunct2, rule_format, OF h]
  note e = t[THEN conjunct1]
  have a': "?a\<lparr> arg_batch_identifiers := PNone,
                arg_batch_filter_parameters := arg_batch_identifiers ?a \<rparr>
     = no_arguments\<lparr> arg_datasource_name := PStr ''s1'',
         arg_data_connector_name := PStr ''c1'', arg_data_asset_name := PStr ''a1'',
         arg_batch_filter_parameters := PDict Dict [(''a'', PInt 1)] \<rparr>"
    by (simp add: no_arguments_def)
  have b: "resolve_batch_spec_passthrough ?a = PDict Dict []"
    by (simp add: resolve_batch_spec_passthrough_def no_arguments_def)
  have f: "arg_limit no_arguments = PNone" "arg_index no_arguments = PNone"
    "arg_custom_filter_function no_arguments = PNone"
    "arg_runtime_parameters no_arguments = PNone"
    by (simp_all add: no_arguments_def)
  show ?thesis
    using e g unfolding a' by (simp add: BatchRequestBase_init_def b f)
qed


lemma py_setitem_TypeError: "py_setitem d k v = Inl e \<Longrightarrow> \<exists>m. e = TypeError m"
  by (cases d) auto

lemma RuntimeBatchRequest_init_no_identifiers:
  "\<exists>m. RuntimeBatchRequest_init dn dcn dan rp (PDict Dict []) bsp = Inl (TypeError m)"
proof (cases "BatchRequest_validate_init_parameters dn dcn dan PNone PNone")
  case (Some e)
  from validate_init_parameters_names_TypeError[OF Some] obtain m where "e = TypeError m" ..
  with RuntimeBatchRequest_init_parent_error[OF Some] show ?thesis by simp
next
  case None
  show ?thesis
    unfolding RuntimeBatchRequest_init_parent_ok[OF None]
    by (simp add: BatchRequest_validate_runtime_batch_request_specific_init_parameters_def)
qed

text \<open>
  C10: a call that reaches the runtime branch (no \<^verbatim>\<open>batch_request\<close>, a str as
  datasource name, the two checks passed, and one of \<^verbatim>\<open>batch_data\<close>, \<^verbatim>\<open>query\<close>,
  \<^verbatim>\<open>path\<close>, \<^verbatim>\<open>runtime_parameters\<close> triggering it) with no
  \<^verbatim>\<open>batch_identifiers\<close> and no extra keyword argument raises a TypeError.
\<close>

theorem runtime_branch_without_identifiers:
  assumes "arg_batch_request a = NotARequest v" and "\<not> truthy v"
    and "isinstance_str (arg_datasource_name a)"
    and "\<not> 1 < provided_count a" and "key_collision a = Inr False"
    and "runtime_trigger a"
    and "arg_batch_identifiers a = PNone" and "arg_kwargs a = []"
  shows "\<exists>m. fst (get_batch_request_from_acceptable_arguments a) = Inl (TypeError m)"
proof -
  have r: "resolve_datasource_name a = Inr (arg_datasource_name a)"
    using assms(1,2) by (simp add: resolve_datasource_name_def)
  have g: "get_batch_request_from_acceptable_arguments a
         = runtime_branch a (arg_datasource_name a)"
    using get_batch_request_guards_passed[OF r assms(3,4,5)] assms(1,6) by simp
  let ?rp = "if truthy (arg_runtime_parameters a) then arg_runtime_parameters a
             else PDict Dict []"
  let ?stored = "if arg_batch_data a \<noteq> PNone then
              py_setitem ?rp ''batch_data'' (arg_batch_data a)
            else if arg_query a \<noteq> PNone then
              py_setitem ?rp ''query'' (arg_query a)
            else if arg_path a \<noteq> PNone then
              py_setitem ?rp ''path'' (arg_path a)
            else Inr ?rp"
  show ?thesis
  proof (cases ?stored)
    case (Inl e)
    then have "\<exists>m. e = TypeError m"
      by (auto dest: py_setitem_TypeError split: if_splits)
    then obtain m where "e = TypeError m" ..
    with Inl show ?thesis unfolding g by (simp add: runtime_branch_def Let_def)
  next
    case (Inr rp')
    from RuntimeBatchRequest_init_no_identifiers
    obtain m where "RuntimeBatchRequest_init (arg_datasource_name a)
        (arg_data_connector_name a) (arg_data_asset_name a) rp' (PDict Dict [])
        (arg_batch_spec_passthrough a) = Inl (TypeError m)" ..
    with Inr assms(7,8) show ?thesis unfolding g by (simp add: runtime_branch_def Let_def)
  qed
qed

theorem runtime_branch_without_identifiers_witness:
  "\<exists>m. fst (get_batch_request_from_acceptable_arguments
      (no_arguments\<lparr> arg_datasource_name := PStr ''s1'',
         arg_data_connector_name := PStr ''c1'', arg_data_asset_name := PStr ''a1'',
         arg_batch_data := PObj ''pandas.core.frame.DataFrame'' 0 \<rparr>)) = Inl (TypeError m)"
  by (rule runtime_branch_without_identifiers[where v = PNone])
     (simp_all add: no_arguments_def provided_count_def key_collision_def given_and_in_def
        runtime_trigger_def)

text \<open>The effect of a call on the caller's runtime parameters.\<close>

lemma runtime_branch_caller_dict:
  assumes "arg_runtime_parameters a = PDict c kvs" and "kvs \<noteq> []"
  shows "caller_runtime_parameters (snd (runtime_branch a dn)) =
     (if arg_batch_data a \<noteq> PNone then
        PDict c (AList.update ''batch_data'' (arg_batch_data a) kvs)
      else if arg_query a \<noteq> PNone then PDict c (AList.update ''query'' (arg_query a) kvs)
      else if arg_path a \<noteq> PNone then PDict c (AList.update ''path'' (arg_path a) kvs)
      else PDict c kvs)"
  using assms by (simp add: runtime_branch_def Let_def no_effects_def)

lemma runtime_branch_caller_other:
  assumes "\<not> truthy (arg_runtime_parameters a)"
  shows "caller_runtime_parameters (snd (runtime_branch a dn)) = arg_runtime_parameters a"
  using assms by (simp add: runtime_branch_def Let_def no_effects_def split: sum.splits)

lemma runtime_branch_caller_not_dict:
  assumes "\<not> isinstance_dict (arg_runtime_parameters a)"
  shows "caller_runtime_parameters (snd (runtime_branch a dn)) = arg_runtime_parameters a"
  using assms
  by (cases "arg_runtime_parameters a")
     (simp_all add: runtime_branch_def Let_def no_effects_def split: sum.splits)

lemma runtime_branch_caller:
  "caller_runtime_parameters (snd (runtime_branch a dn)) = arg_runtime_parameters a
   \<or> (\<exists>c kvs k v. arg_runtime_parameters a = PDict c kvs \<and> kvs \<noteq> [] \<and> v \<noteq> PNone
        \<and> (k = ''batch_data'' \<and> v = arg_batch_data a
           \<or> k = ''query'' \<and> v = arg_query a
           \<or> k = ''path'' \<and> v = arg_path a)
        \<and> caller_runtime_parameters (snd (runtime_branch a dn))
            = PDict c (AList.update k v kvs))"
proof (cases "arg_runtime_parameters a")
  case (PDict c kvs)
  show ?thesis
  proof (cases "kvs = []")
    case True
    with PDict have "\<not> truthy (arg_runtime_parameters a)" by simp
    from runtime_branch_caller_other[OF this] show ?thesis by simp
  next
    case False
    note d = runtime_branch_caller_dict[OF PDict False, of dn]
    consider (bd) "arg_batch_data a \<noteq> PNone"
      | (q) "arg_batch_data a = PNone" "arg_query a \<noteq> PNone"
      | (p) "arg_batch_data a = PNone" "arg_query a = PNone" "arg_path a \<noteq> PNone"
      | (none) "arg_batch_data a = PNone" "arg_query a = PNone" "arg_path a = PNone"
      by blast
    then show ?thesis
    proof cases
      case bd
      with d PDict False show ?thesis
        by (intro disjI2 exI[of _ c] exI[of _ kvs] exI[of _ "''batch_data''"]
              exI[of _ "arg_batch_data a"]) simp
    next
      case q
      with d PDict False show ?thesis
        by (intro disjI2 exI[of _ c] exI[of _ kvs] exI[of _ "''query''"]
              exI[of _ "arg_query a"]) simp
    next
      case p
      with d PDict False show ?thesis
        by (intro disjI2 exI[of _ c] exI[of _ kvs] exI[of _ "''path''"]
              exI[of _ "arg_path a"]) simp
    next
      case none
      with d PDict show ?thesis by simp
    qed
  qed
qed (simp_all add: runtime_branch_caller_not_dict)

lemma catalog_branch_caller:
  "caller_runtime_parameters (snd (catalog_branch a dn)) = arg_runtime_parameters a"
  by (simp add: catalog_branch_def Let_def no_effects_def split: sum.splits prod.splits)

lemma get_batch_request_caller:
  "caller_runtime_parameters (snd (get_batch_request_from_acceptable_arguments a))
     = arg_runtime_parameters a
   \<or> (\<exists>c kvs k v. arg_runtime_parameters a = PDict c kvs \<and> kvs \<noteq> [] \<and> v \<noteq> PNone
        \<and> (k = ''batch_data'' \<and> v = arg_batch_data a
           \<or> k = ''query'' \<and> v = arg_query a
           \<or> k = ''path'' \<and> v = arg_path a)
        \<and> caller_runtime_parameters (snd (get_batch_request_from_acceptable_arguments a))
            = PDict c (AList.update k v kvs))"
proof -
  have n: "caller_runtime_parameters (no_effects a) = arg_runtime_parameters a"
    by (simp add: no_effects_def)
  have "snd (get_batch_request_from_acceptable_arguments a) = no_effects a
      \<or> (\<exists>dn. get_batch_request_from_acceptable_arguments a = runtime_branch a dn)
      \<or> (\<exists>dn. get_batch_request_from_acceptable_arguments a = catalog_branch a dn)"
  proof (cases "resolve_datasource_name a")
    case (Inl e)
    then show ?thesis by (simp add: get_batch_request_resolve_error)
  next
    case (Inr dn)
    show ?thesis
    proof (cases "isinstance_str dn \<and> \<not> 1 < provided_count a")
      case False
      with Inr show ?thesis
        by (auto simp: get_batch_request_from_acceptable_arguments_def)
    next
      case True
      show ?thesis
      proof (cases "key_collision a = Inr False")
        case False
        with Inr True have "snd (get_batch_request_from_acceptable_arguments a) = no_effects a"
          by (cases "key_collision a")
             (simp_all add: get_batch_request_from_acceptable_arguments_def)
        then show ?thesis by simp
      next
        case k: True
        from get_batch_request_guards_passed[OF Inr _ _ k] True
        show ?thesis by (cases "arg_batch_request a") auto
      qed
    qed
  qed
  then consider (other) "snd (get_batch_request_from_acceptable_arguments a) = no_effects a"
    | (runtime) dn where "get_batch_request_from_acceptable_arguments a = runtime_branch a dn"
    | (catalog) dn where "get_batch_request_from_acceptable_arguments a = catalog_branch a dn"
    by (elim disjE exE)
  then show ?thesis
  proof cases
    case other
    then show ?thesis using n by simp
  next
    case (runtime dn)
    then show ?thesis using runtime_branch_caller[of a dn] by simp
  next
    case (catalog dn)
    then show ?thesis using catalog_branch_caller[of a dn] by simp
  qed
qed

end
